theory Spec2Isabelle
  imports Complex_Main
begin

section \<open>Python values\<close>

text \<open>
  The values that travel through the services: \<open>None\<close>, strings, and numbers
  (\<open>PyTime\<close>: a numeric date in a token, in seconds; the one \<open>datetime\<close> of the
  program, the expiry that \<open>create_jwt_token\<close> hands to the token library, is given by
  its number of seconds too).
  A clock reading is a real number of seconds; every function that reads a clock in the
  source takes the reading as an argument, one argument per read, in the order of the reads.
  A Python dict is a partial map.
\<close>

datatype pyval = PyNone | PyStr string | PyTime real

type_synonym pydict = "string \<rightharpoonup> pyval"

datatype py_exception = KeyError string | ValueError | OtherException

text \<open>\<open>d[k]\<close> raises \<open>KeyError\<close> on a missing key; \<open>d.get(k, default)\<close> does not.\<close>

definition getitem :: "pydict \<Rightarrow> string \<Rightarrow> py_exception + pyval" where
  "getitem d k = (case d k of None \<Rightarrow> Inl (KeyError k) | Some v \<Rightarrow> Inr v)"

definition dict_get :: "pydict \<Rightarrow> string \<Rightarrow> pyval \<Rightarrow> pyval" where
  "dict_get d k dflt = (case d k of None \<Rightarrow> dflt | Some v \<Rightarrow> v)"

section \<open>auth-service: the in-memory state store\<close>

text \<open>
  \<open>oauth_states\<close> maps a state string to \<open>{'timestamp': ..., 'used': ...}\<close>.
  The three functions mutate the global dict; here they take it and return the new one.
\<close>

record oauth_state_data =
  timestamp :: real
  used :: bool

type_synonym oauth_states = "string \<rightharpoonup> oauth_state_data"

text \<open>
  \<open>cleanup_expired_states\<close>: collect the keys whose record is older than 600 seconds at
  \<open>current_time\<close>, then delete each of them.
\<close>

definition cleanup_expired_states :: "real \<Rightarrow> oauth_states \<Rightarrow> oauth_states" where
  "cleanup_expired_states current_time oauth_states =
     (\<lambda>state. case oauth_states state of
                 None \<Rightarrow> None
               | Some data \<Rightarrow> if current_time - timestamp data > 600 then None else Some data)"

text \<open>
  \<open>store_oauth_state\<close> reads the clock twice: once inside the sweep (\<open>current_time\<close>) and
  once for the new record's timestamp (\<open>now\<close>).
\<close>

definition store_oauth_state :: "real \<Rightarrow> real \<Rightarrow> oauth_states \<Rightarrow> string \<Rightarrow> oauth_states" where
  "store_oauth_state current_time now oauth_states state =
     (cleanup_expired_states current_time oauth_states)
       (state \<mapsto> \<lparr>timestamp = now, used = False\<rparr>)"

text \<open>\<open>verify_oauth_state\<close> returns its boolean together with the updated dict.\<close>

definition verify_oauth_state :: "real \<Rightarrow> oauth_states \<Rightarrow> string \<Rightarrow> bool \<times> oauth_states" where
  "verify_oauth_state current_time oauth_states state =
     (let swept = cleanup_expired_states current_time oauth_states in
      case swept state of
        None \<Rightarrow> (False, swept)
      | Some data \<Rightarrow>
          if \<not> used data then (True, swept(state \<mapsto> data\<lparr>used := True\<rparr>))
          else (False, swept))"

text \<open>
  A run of the store: the operations that touch \<open>oauth_states\<close>, applied in order.
  \<open>Store\<close> is a call of \<open>store_oauth_state\<close>, \<open>Verify\<close> a call of \<open>verify_oauth_state\<close>
  (its boolean dropped), \<open>Cleanup\<close> a bare sweep as \<open>/auth/debug\<close> performs.
\<close>

datatype store_op = Store string real real | Verify string real | Cleanup real

fun apply_store_op :: "oauth_states \<Rightarrow> store_op \<Rightarrow> oauth_states" where
  "apply_store_op m (Store state current_time now) = store_oauth_state current_time now m state"
| "apply_store_op m (Verify state current_time) = snd (verify_oauth_state current_time m state)"
| "apply_store_op m (Cleanup current_time) = cleanup_expired_states current_time m"

fun stores :: "string \<Rightarrow> store_op \<Rightarrow> bool" where
  "stores s (Store state _ _) = (state = s)"
| "stores s _ = False"

definition run_store :: "oauth_states \<Rightarrow> store_op list \<Rightarrow> oauth_states" where
  "run_store m ops = foldl apply_store_op m ops"

text \<open>A state that is absent or used stays so under every operation but a store of it.\<close>

definition spent :: "oauth_states \<Rightarrow> string \<Rightarrow> bool" where
  "spent m s = (case m s of None \<Rightarrow> True | Some d \<Rightarrow> used d)"

section \<open>The token library\<close>

text \<open>
  \<open>jwt.encode\<close> and \<open>jwt.decode\<close> belong to the PyJWT library, not to this repository.
  The services call them with the algorithm \<open>HS256\<close> only. The model keeps what the
  services rely on. A serialized token is either a well-formed triple of header algorithm,
  claim set and signature, or a string that does not parse (\<open>NotJwt\<close>); serialization is
  taken to be one-to-one. The keyed hash is a parameter \<open>hmac\<close> of every function that
  signs or checks: from key, header and claim set to signature.

  Encoding writes a \<open>datetime\<close> in one of the time claims \<open>exp\<close>, \<open>iat\<close>, \<open>nbf\<close> as a
  numeric date in whole seconds, dropping the fraction, and signs the claim set so written.
  (The services hand over one time claim only, \<open>exp\<close>, and always as a \<open>datetime\<close>.)

  Decoding checks the structure, the algorithm, the signature over header and claim set,
  and then the registered claims that are present: \<open>iat\<close> and \<open>nbf\<close> must be numbers not
  after \<open>now\<close>, \<open>exp\<close> must be a number after \<open>now\<close> (each read in whole seconds, so the
  token is expired when \<open>exp \<le> now\<close>), \<open>aud\<close> must be empty since the services name no
  audience, \<open>sub\<close> and \<open>jti\<close> must be strings. All the errors are subclasses of
  \<open>InvalidTokenError\<close> in the library.
\<close>

datatype jwt = Jwt (jwt_alg: string) (jwt_claims: pydict) (jwt_sig: string) | NotJwt string

datatype jwt_error =
  DecodeError | InvalidAlgorithmError | InvalidSignatureError | ExpiredSignatureError
  | ImmatureSignatureError | InvalidIssuedAtError | InvalidAudienceError
  | InvalidSubjectError | InvalidJTIError

type_synonym hmac = "string \<Rightarrow> string \<Rightarrow> pydict \<Rightarrow> string"

definition numeric_date :: "pydict \<Rightarrow> string \<Rightarrow> pydict" where
  "numeric_date payload time_claim =
     (case payload time_claim of
        Some (PyTime t) \<Rightarrow> payload(time_claim \<mapsto> PyTime (of_int \<lfloor>t\<rfloor>))
      | _ \<Rightarrow> payload)"

definition jwt_encode :: "hmac \<Rightarrow> pydict \<Rightarrow> string \<Rightarrow> string \<Rightarrow> jwt" where
  "jwt_encode hmac payload key algorithm =
     (let claims = foldl numeric_date payload [''exp'', ''iat'', ''nbf'']
      in Jwt algorithm claims (hmac key algorithm claims))"

definition validate_iat :: "real \<Rightarrow> pydict \<Rightarrow> jwt_error option" where
  "validate_iat now payload =
     (case payload ''iat'' of
        None \<Rightarrow> None
      | Some (PyTime iat) \<Rightarrow> if of_int \<lfloor>iat\<rfloor> > now then Some ImmatureSignatureError else None
      | Some _ \<Rightarrow> Some InvalidIssuedAtError)"

definition validate_nbf :: "real \<Rightarrow> pydict \<Rightarrow> jwt_error option" where
  "validate_nbf now payload =
     (case payload ''nbf'' of
        None \<Rightarrow> None
      | Some (PyTime nbf) \<Rightarrow> if of_int \<lfloor>nbf\<rfloor> > now then Some ImmatureSignatureError else None
      | Some _ \<Rightarrow> Some DecodeError)"

definition validate_exp :: "real \<Rightarrow> pydict \<Rightarrow> jwt_error option" where
  "validate_exp now payload =
     (case payload ''exp'' of
        None \<Rightarrow> None
      | Some (PyTime expiry) \<Rightarrow> if of_int \<lfloor>expiry\<rfloor> \<le> now then Some ExpiredSignatureError else None
      | Some _ \<Rightarrow> Some DecodeError)"

definition validate_aud :: "pydict \<Rightarrow> jwt_error option" where
  "validate_aud payload =
     (case payload ''aud'' of
        None \<Rightarrow> None
      | Some PyNone \<Rightarrow> None
      | Some (PyStr a) \<Rightarrow> if a = [] then None else Some InvalidAudienceError
      | Some (PyTime a) \<Rightarrow> if a = 0 then None else Some InvalidAudienceError)"

definition validate_sub :: "pydict \<Rightarrow> jwt_error option" where
  "validate_sub payload =
     (case payload ''sub'' of
        None \<Rightarrow> None
      | Some (PyStr s) \<Rightarrow> None
      | Some _ \<Rightarrow> Some InvalidSubjectError)"

definition validate_jti :: "pydict \<Rightarrow> jwt_error option" where
  "validate_jti payload =
     (case payload ''jti'' of
        None \<Rightarrow> None
      | Some (PyStr j) \<Rightarrow> None
      | Some _ \<Rightarrow> Some InvalidJTIError)"

definition validate_claims :: "real \<Rightarrow> pydict \<Rightarrow> jwt_error + pydict" where
  "validate_claims now payload =
     (case validate_iat now payload of Some e \<Rightarrow> Inl e | None \<Rightarrow>
      case validate_nbf now payload of Some e \<Rightarrow> Inl e | None \<Rightarrow>
      case validate_exp now payload of Some e \<Rightarrow> Inl e | None \<Rightarrow>
      case validate_aud payload of Some e \<Rightarrow> Inl e | None \<Rightarrow>
      case validate_sub payload of Some e \<Rightarrow> Inl e | None \<Rightarrow>
      case validate_jti payload of Some e \<Rightarrow> Inl e | None \<Rightarrow>
        Inr payload)"

definition jwt_decode :: "hmac \<Rightarrow> real \<Rightarrow> jwt \<Rightarrow> string \<Rightarrow> string list \<Rightarrow> jwt_error + pydict" where
  "jwt_decode hmac now token key algorithms =
     (case token of
        NotJwt s \<Rightarrow> Inl DecodeError
      | Jwt alg claims sg \<Rightarrow>
          if alg \<notin> set algorithms then Inl InvalidAlgorithmError
          else if sg \<noteq> hmac key alg claims then Inl InvalidSignatureError
          else validate_claims now claims)"

section \<open>auth-service: tokens\<close>

text \<open>
  \<open>create_jwt_token\<close>: four subscripts that raise \<open>KeyError\<close> on a missing key, a
  \<open>.get('picture', '')\<close>, and an expiry eight hours after the clock reading \<open>utcnow\<close>,
  a \<open>datetime\<close> that \<open>jwt_encode\<close> writes into the token in whole seconds.
\<close>

definition create_jwt_token :: "hmac \<Rightarrow> string \<Rightarrow> real \<Rightarrow> pydict \<Rightarrow> py_exception + jwt" where
  "create_jwt_token hmac JWT_SECRET utcnow user_info =
     (case getitem user_info ''sub'' of Inl e \<Rightarrow> Inl e | Inr sub \<Rightarrow>
      case getitem user_info ''email'' of Inl e \<Rightarrow> Inl e | Inr email \<Rightarrow>
      case getitem user_info ''name'' of Inl e \<Rightarrow> Inl e | Inr name \<Rightarrow>
      case getitem user_info ''role'' of Inl e \<Rightarrow> Inl e | Inr role \<Rightarrow>
        Inr (jwt_encode hmac
               [''sub'' \<mapsto> sub,
                ''email'' \<mapsto> email,
                ''name'' \<mapsto> name,
                ''role'' \<mapsto> role,
                ''picture'' \<mapsto> dict_get user_info ''picture'' (PyStr []),
                ''exp'' \<mapsto> PyTime (utcnow + 8 * 3600)]
               JWT_SECRET ''HS256''))"

text \<open>
  \<open>verify_jwt_token\<close>: the payload, or \<open>None\<close> from either \<open>except\<close> clause
  (\<open>ExpiredSignatureError\<close> first, then every other \<open>InvalidTokenError\<close>).
\<close>

definition verify_jwt_token :: "hmac \<Rightarrow> string \<Rightarrow> real \<Rightarrow> jwt \<Rightarrow> pydict option" where
  "verify_jwt_token hmac JWT_SECRET now token =
     (case jwt_decode hmac now token JWT_SECRET [''HS256''] of
        Inr payload \<Rightarrow> Some payload
      | Inl ExpiredSignatureError \<Rightarrow> None
      | Inl _ \<Rightarrow> None)"

text \<open>\<open>get_user_role\<close>: \<open>USER_ROLES.get(email, 'user')\<close>; the keys of \<open>USER_ROLES\<close> are strings.\<close>

definition get_user_role :: "(string \<rightharpoonup> pyval) \<Rightarrow> pyval \<Rightarrow> pyval" where
  "get_user_role USER_ROLES email =
     (case email of PyStr e \<Rightarrow> dict_get USER_ROLES e (PyStr ''user'') | _ \<Rightarrow> PyStr ''user'')"

text \<open>Python truthiness of a payload: \<open>None\<close> and the empty dict are false.\<close>

definition falsy :: "pydict option \<Rightarrow> bool" where
  "falsy payload = (case payload of None \<Rightarrow> True | Some d \<Rightarrow> d = Map.empty)"

section \<open>auth-service: login and callback\<close>

text \<open>
  The Flask session is a dict carried by the client's cookie; a handler takes it with the
  request and returns it with the response. \<open>initiate_login\<close> takes the random state
  that \<open>os.urandom(32).hex()\<close> produced and the two clock readings of
  \<open>store_oauth_state\<close>; it returns the authorization URL.
\<close>

type_synonym session = "string \<rightharpoonup> string"

record oauth_config =
  AUTH_URI :: string
  CLIENT_ID :: string
  REDIRECT_URI :: string
  SCOPE :: string

definition initiate_login ::
  "oauth_config \<Rightarrow> string \<Rightarrow> real \<Rightarrow> real \<Rightarrow> oauth_states \<Rightarrow> session
     \<Rightarrow> string \<times> oauth_states \<times> session" where
  "initiate_login config state current_time now oauth_states session =
     (AUTH_URI config @ ''?response_type=code''
        @ ''&client_id='' @ CLIENT_ID config
        @ ''&redirect_uri='' @ REDIRECT_URI config
        @ ''&scope='' @ SCOPE config
        @ ''&state='' @ state
        @ ''&access_type=offline''
        @ ''&prompt=consent'',
      store_oauth_state current_time now oauth_states state,
      session(''oauth_state'' \<mapsto> state))"

text \<open>
  The identity provider is outside the repository: \<open>token_endpoint\<close> is
  \<open>requests.post(TOKEN_URI, data=...)\<close> as a function of the authorization code (it may
  raise; a response has a status code and, when its body parses, a JSON object), and
  \<open>verify_oauth2_token\<close> is the Google library call (it raises \<open>ValueError\<close> on a token
  it rejects, or returns the identity claims).
\<close>

record http_response =
  status_code :: nat
  json :: "(string \<rightharpoonup> string) option"

record provider =
  token_endpoint :: "string \<Rightarrow> py_exception + http_response"
  verify_oauth2_token :: "string \<Rightarrow> py_exception + pydict"

text \<open>
  A redirect to the frontend: \<open>/login?error=<reason>\<close> or \<open>/auth/success?token=<token>\<close>.
\<close>

datatype redirect = LoginError string | AuthSuccess jwt

text \<open>
  The state check of \<open>oauth_callback\<close> (the source's lines from \<open>state_valid = False\<close>
  to the test of \<open>state_valid\<close>): the stored states first, the session's copy of the
  state as the \<open>elif\<close>.
\<close>

definition check_state ::
  "real \<Rightarrow> oauth_states \<Rightarrow> session \<Rightarrow> string option \<Rightarrow> bool \<times> oauth_states" where
  "check_state current_time oauth_states session state =
     (case state of
        None \<Rightarrow> (False, oauth_states)
      | Some s \<Rightarrow>
          if s = [] then (False, oauth_states)
          else (case verify_oauth_state current_time oauth_states s of
                  (True, oauth_states') \<Rightarrow> (True, oauth_states')
                | (False, oauth_states') \<Rightarrow>
                    if Some s = session ''oauth_state'' then (True, oauth_states')
                    else (False, oauth_states')))"

text \<open>
  The rest of the handler once the state is accepted and a code is present: the exchange,
  the identity check, the role lookup and the token. Every exception that the source's
  outer \<open>except Exception\<close> catches becomes \<open>internal_error\<close>. The result is the
  redirect and whether the session's \<open>oauth_state\<close> was popped.
\<close>

definition exchange_code ::
  "hmac \<Rightarrow> string \<Rightarrow> (string \<rightharpoonup> pyval) \<Rightarrow> provider \<Rightarrow> real \<Rightarrow> string \<Rightarrow> redirect \<times> bool" where
  "exchange_code hmac JWT_SECRET USER_ROLES idp utcnow code =
     (case token_endpoint idp code of
        Inl e \<Rightarrow> (LoginError ''internal_error'', False)
      | Inr token_response \<Rightarrow>
          if status_code token_response \<noteq> 200 then (LoginError ''token_exchange_failed'', False)
          else (case json token_response of
                  None \<Rightarrow> (LoginError ''internal_error'', False)
                | Some tokens \<Rightarrow>
                    (case tokens ''id_token'' of
                       None \<Rightarrow> (LoginError ''internal_error'', False)
                     | Some id_tok \<Rightarrow>
                         (case verify_oauth2_token idp id_tok of
                            Inl ValueError \<Rightarrow> (LoginError ''invalid_token'', False)
                          | Inl _ \<Rightarrow> (LoginError ''internal_error'', False)
                          | Inr idinfo \<Rightarrow>
                              (let user_email = dict_get idinfo ''email'' PyNone;
                                   user_role = get_user_role USER_ROLES user_email
                               in case getitem idinfo ''sub'' of
                                    Inl e \<Rightarrow> (LoginError ''internal_error'', False)
                                  | Inr sub \<Rightarrow>
                                      (case create_jwt_token hmac JWT_SECRET utcnow
                                              [''sub'' \<mapsto> sub,
                                               ''email'' \<mapsto> user_email,
                                               ''name'' \<mapsto> dict_get idinfo ''name'' PyNone,
                                               ''picture'' \<mapsto> dict_get idinfo ''picture'' PyNone,
                                               ''role'' \<mapsto> user_role] of
                                         Inl e \<Rightarrow> (LoginError ''internal_error'', False)
                                       | Inr jwt_token \<Rightarrow> (AuthSuccess jwt_token, True)))))))"

text \<open>
  \<open>oauth_callback\<close>: the request's \<open>state\<close> and \<open>code\<close> arguments (absent is \<open>None\<close>),
  the clock reading of the sweep and the one of the token's issue. The state check comes
  first, the test of the code second.
\<close>

definition oauth_callback ::
  "hmac \<Rightarrow> string \<Rightarrow> (string \<rightharpoonup> pyval) \<Rightarrow> provider \<Rightarrow> real \<Rightarrow> real
     \<Rightarrow> oauth_states \<Rightarrow> session \<Rightarrow> string option \<Rightarrow> string option
     \<Rightarrow> redirect \<times> oauth_states \<times> session" where
  "oauth_callback hmac JWT_SECRET USER_ROLES idp current_time utcnow oauth_states session state code =
     (case check_state current_time oauth_states session state of
        (False, oauth_states') \<Rightarrow> (LoginError ''state_mismatch'', oauth_states', session)
      | (True, oauth_states') \<Rightarrow>
          (case code of
             None \<Rightarrow> (LoginError ''no_code'', oauth_states', session)
           | Some c \<Rightarrow>
               if c = [] then (LoginError ''no_code'', oauth_states', session)
               else (case exchange_code hmac JWT_SECRET USER_ROLES idp utcnow c of
                       (r, True) \<Rightarrow> (r, oauth_states', session(''oauth_state'' := None))
                     | (r, False) \<Rightarrow> (r, oauth_states', session))))"

section \<open>auth-service: refresh\<close>

text \<open>
  \<open>/auth/refresh\<close>: the request body is \<open>None\<close> when \<open>get_json()\<close> yields no object
  (the \<open>.get\<close> then raises, caught as 500), else the value of its \<open>token\<close> field, if any.
  The reply is a new token or an error message with its status.
\<close>

datatype refresh_reply = is_NewToken: NewToken (reply_token: jwt) | RefreshError string nat

definition refresh_token ::
  "hmac \<Rightarrow> string \<Rightarrow> real \<Rightarrow> real \<Rightarrow> jwt option option \<Rightarrow> refresh_reply" where
  "refresh_token hmac JWT_SECRET now utcnow data =
     (case data of
        None \<Rightarrow> RefreshError ''Token refresh failed'' 500
      | Some None \<Rightarrow> RefreshError ''Token required'' 400
      | Some (Some token) \<Rightarrow>
          if token = NotJwt [] then RefreshError ''Token required'' 400
          else (case verify_jwt_token hmac JWT_SECRET now token of
                  None \<Rightarrow> RefreshError ''Invalid or expired token'' 401
                | Some payload \<Rightarrow>
                    if payload = Map.empty then RefreshError ''Invalid or expired token'' 401
                    else
                     (case getitem payload ''sub'' of
                        Inl e \<Rightarrow> RefreshError ''Token refresh failed'' 500 | Inr sub \<Rightarrow>
                      case getitem payload ''email'' of
                        Inl e \<Rightarrow> RefreshError ''Token refresh failed'' 500 | Inr email \<Rightarrow>
                      case getitem payload ''name'' of
                        Inl e \<Rightarrow> RefreshError ''Token refresh failed'' 500 | Inr name \<Rightarrow>
                      case getitem payload ''role'' of
                        Inl e \<Rightarrow> RefreshError ''Token refresh failed'' 500 | Inr role \<Rightarrow>
                      case create_jwt_token hmac JWT_SECRET utcnow
                             [''sub'' \<mapsto> sub,
                              ''email'' \<mapsto> email,
                              ''name'' \<mapsto> name,
                              ''role'' \<mapsto> role,
                              ''picture'' \<mapsto> dict_get payload ''picture'' (PyStr [])] of
                        Inl e \<Rightarrow> RefreshError ''Token refresh failed'' 500
                      | Inr new_token \<Rightarrow> NewToken new_token)))"

section \<open>resource-service: the guards\<close>

text \<open>
  A request carries the \<open>Authorization\<close> header and, once \<open>login_required\<close> has set it,
  the attribute \<open>user\<close>. \<open>Bearer token\<close> is a header value that starts with
  \<open>'Bearer '\<close> and whose second space-separated piece is \<open>token\<close>; \<open>OtherHeader\<close> is any
  other value, the empty one included. The resource service has its own copy of
  \<open>verify_jwt_token\<close>, the same text as the authentication service's.
\<close>

datatype auth_header = Bearer jwt | OtherHeader string

record request =
  authorization :: "auth_header option"
  user :: "pydict option"

datatype response = Response (body: string) (status: nat)

definition login_required ::
  "hmac \<Rightarrow> string \<Rightarrow> real \<Rightarrow> (request \<Rightarrow> response) \<Rightarrow> request \<Rightarrow> response" where
  "login_required hmac JWT_SECRET now f req =
     (case authorization req of
        None \<Rightarrow> Response ''Missing or invalid token'' 401
      | Some (OtherHeader h) \<Rightarrow> Response ''Missing or invalid token'' 401
      | Some (Bearer token) \<Rightarrow>
          (let payload = verify_jwt_token hmac JWT_SECRET now token in
           if falsy payload then Response ''Invalid or expired token'' 401
           else f (req\<lparr>user := payload\<rparr>)))"

definition admin_required :: "(request \<Rightarrow> response) \<Rightarrow> request \<Rightarrow> response" where
  "admin_required f req =
     (case user req of
        None \<Rightarrow> Response ''Admin access required'' 403
      | Some u \<Rightarrow>
          if dict_get u ''role'' PyNone \<noteq> PyStr ''admin'' then Response ''Admin access required'' 403
          else f req)"

text \<open>
  The two kinds of route: \<open>@login_required\<close> alone, and \<open>@login_required\<close> over
  \<open>@admin_required\<close>.
\<close>

datatype required_role = AnyAuthenticated | Admin

definition guard ::
  "hmac \<Rightarrow> string \<Rightarrow> real \<Rightarrow> required_role \<Rightarrow> (request \<Rightarrow> response) \<Rightarrow> request \<Rightarrow> response" where
  "guard hmac JWT_SECRET now required f =
     (case required of
        AnyAuthenticated \<Rightarrow> login_required hmac JWT_SECRET now f
      | Admin \<Rightarrow> login_required hmac JWT_SECRET now (admin_required f))"

section \<open>Sample data\<close>

text \<open>
  Concrete inputs on which the functions are evaluated: a keyed hash that writes out the
  key, the header and the six claims of a session token, an identity, the
  token issued for it at time 0 under the key \<open>secret\<close>, a configuration, an identity
  provider that accepts every code and asserts the sample identity, and one whose token
  endpoint answers every code with status 400.
\<close>

fun digits :: "nat \<Rightarrow> string" where
  "digits n =
     (if n < 10 then [''0123456789'' ! n]
      else digits (n div 10) @ [''0123456789'' ! (n mod 10)])"

definition show_claim :: "pyval option \<Rightarrow> string" where
  "show_claim v =
     (case v of
        None \<Rightarrow> ''-''
      | Some PyNone \<Rightarrow> ''None''
      | Some (PyStr s) \<Rightarrow> s
      | Some (PyTime t) \<Rightarrow> digits (nat \<lfloor>t\<rfloor>))"

definition sample_hmac :: hmac where
  "sample_hmac key alg claims =
     key @ ''/'' @ alg
       @ ''/'' @ show_claim (claims ''sub'')
       @ ''/'' @ show_claim (claims ''email'')
       @ ''/'' @ show_claim (claims ''name'')
       @ ''/'' @ show_claim (claims ''role'')
       @ ''/'' @ show_claim (claims ''picture'')
       @ ''/'' @ show_claim (claims ''exp'')"

definition sample_user :: pydict where
  "sample_user =
     [''sub'' \<mapsto> PyStr ''u1'',
      ''email'' \<mapsto> PyStr ''ann@example.com'',
      ''name'' \<mapsto> PyStr ''Ann'',
      ''picture'' \<mapsto> PyNone,
      ''role'' \<mapsto> PyStr ''user'']"

definition sample_token :: jwt where
  "sample_token =
     jwt_encode sample_hmac
       [''sub'' \<mapsto> PyStr ''u1'',
        ''email'' \<mapsto> PyStr ''ann@example.com'',
        ''name'' \<mapsto> PyStr ''Ann'',
        ''role'' \<mapsto> PyStr ''user'',
        ''picture'' \<mapsto> PyNone,
        ''exp'' \<mapsto> PyTime 28800]
       ''secret'' ''HS256''"

definition sample_config :: oauth_config where
  "sample_config =
     \<lparr>AUTH_URI = ''https://idp.example/auth'',
      CLIENT_ID = ''client'',
      REDIRECT_URI = ''http://localhost:5001/auth/callback'',
      SCOPE = ''openid''\<rparr>"

definition sample_idp_ok :: provider where
  "sample_idp_ok =
     \<lparr>token_endpoint = (\<lambda>code. Inr \<lparr>status_code = 200, json = Some [''id_token'' \<mapsto> ''idt'']\<rparr>),
      verify_oauth2_token =
        (\<lambda>id_tok. Inr [''sub'' \<mapsto> PyStr ''u1'',
                        ''email'' \<mapsto> PyStr ''ann@example.com'',
                        ''name'' \<mapsto> PyStr ''Ann''])\<rparr>"

definition sample_idp :: provider where
  "sample_idp =
     \<lparr>token_endpoint = (\<lambda>code. Inr \<lparr>status_code = 400, json = None\<rparr>),
      verify_oauth2_token = (\<lambda>id_tok. Inl ValueError)\<rparr>"

section \<open>The state store: lemmas\<close>

lemma cleanup_lookup:
  "cleanup_expired_states t m s =
     (case m s of None \<Rightarrow> None | Some d \<Rightarrow> if t - timestamp d > 600 then None else Some d)"
  by (simp add: cleanup_expired_states_def)

lemma verify_fst:
  "fst (verify_oauth_state t m s) = (\<exists>d. m s = Some d \<and> \<not> used d \<and> t - timestamp d \<le> 600)"
  by (auto simp: verify_oauth_state_def cleanup_lookup Let_def split: option.splits if_splits)

lemma verify_snd_same:
  "snd (verify_oauth_state t m s) s =
     (case m s of
        None \<Rightarrow> None
      | Some d \<Rightarrow> if t - timestamp d > 600 then None else Some (d\<lparr>used := True\<rparr>))"
  by (auto simp: verify_oauth_state_def cleanup_lookup Let_def split: option.splits if_splits)

lemma verify_snd_other:
  "s' \<noteq> s \<Longrightarrow> snd (verify_oauth_state t m s) s' = cleanup_expired_states t m s'"
  by (auto simp: verify_oauth_state_def Let_def split: option.splits if_splits)

lemma spent_after_verify: "spent (snd (verify_oauth_state t m s)) s"
  by (simp add: spent_def verify_snd_same split: option.splits)

lemma spent_step: "spent m s \<Longrightarrow> \<not> stores s op \<Longrightarrow> spent (apply_store_op m op) s"
proof (cases op)
  case (Store s' t n)
  assume "spent m s" "\<not> stores s op"
  with Store show ?thesis
    by (auto simp: spent_def store_oauth_state_def cleanup_lookup split: option.splits)
next
  case (Verify s' t)
  assume "spent m s"
  with Verify show ?thesis
    by (cases "s' = s")
       (auto simp: spent_def verify_snd_same verify_snd_other cleanup_lookup split: option.splits)
next
  case (Cleanup t)
  assume "spent m s"
  with Cleanup show ?thesis
    by (auto simp: spent_def cleanup_lookup split: option.splits)
qed

lemma spent_run: "spent m s \<Longrightarrow> list_all (\<lambda>op. \<not> stores s op) ops \<Longrightarrow> spent (run_store m ops) s"
  unfolding run_store_def
  by (induction ops arbitrary: m) (auto simp: spent_step)

lemma spent_verify_False: "spent m s \<Longrightarrow> \<not> fst (verify_oauth_state t m s)"
  by (auto simp: verify_fst spent_def)

section \<open>Claims about the state store\<close>

text \<open>
  Claim C2. \<open>verify_oauth_state\<close> returns true exactly when the record exists, is not yet
  used and was created at most 600 seconds before the sweep's clock reading; it then marks
  the record used. After any call of it for a state, no later call for that state returns
  true, whatever other operations run in between, as long as the state is not stored anew:
  true at most once per issued token. A record older than 600 seconds always gives false.
\<close>

theorem verify_oauth_state_consume:
  "(fst (verify_oauth_state t m s) \<longleftrightarrow> (\<exists>d. m s = Some d \<and> \<not> used d \<and> t - timestamp d \<le> 600))
   \<and> (\<forall>d. m s = Some d \<and> \<not> used d \<and> t - timestamp d \<le> 600
          \<longrightarrow> snd (verify_oauth_state t m s) s = Some (d\<lparr>used := True\<rparr>))
   \<and> (list_all (\<lambda>op. \<not> stores s op) ops
          \<longrightarrow> \<not> fst (verify_oauth_state t' (run_store (snd (verify_oauth_state t m s)) ops) s))
   \<and> (\<forall>d. m s = Some d \<and> t - timestamp d > 600 \<longrightarrow> \<not> fst (verify_oauth_state t m s))"
proof (intro conjI allI impI)
  show "fst (verify_oauth_state t m s) \<longleftrightarrow> (\<exists>d. m s = Some d \<and> \<not> used d \<and> t - timestamp d \<le> 600)"
    by (rule verify_fst)
next
  fix d assume "m s = Some d \<and> \<not> used d \<and> t - timestamp d \<le> 600"
  then show "snd (verify_oauth_state t m s) s = Some (d\<lparr>used := True\<rparr>)"
    by (simp add: verify_snd_same)
next
  assume "list_all (\<lambda>op. \<not> stores s op) ops"
  then have "spent (run_store (snd (verify_oauth_state t m s)) ops) s"
    by (rule spent_run [OF spent_after_verify])
  then show "\<not> fst (verify_oauth_state t' (run_store (snd (verify_oauth_state t m s)) ops) s)"
    by (rule spent_verify_False)
next
  fix d assume "m s = Some d \<and> t - timestamp d > 600"
  then show "\<not> fst (verify_oauth_state t m s)"
    by (auto simp: verify_fst)
qed

text \<open>
  A state issued at 0 is consumed at 100, refused at 200 after other operations, and a
  fresh copy of it is refused at 601.
\<close>

theorem verify_oauth_state_consume_witness:
  "fst (verify_oauth_state 100 [''s1'' \<mapsto> \<lparr>timestamp = 0, used = False\<rparr>] ''s1'')
   \<and> snd (verify_oauth_state 100 [''s1'' \<mapsto> \<lparr>timestamp = 0, used = False\<rparr>] ''s1'') ''s1''
        = Some \<lparr>timestamp = 0, used = True\<rparr>
   \<and> \<not> fst (verify_oauth_state 200
              (run_store (snd (verify_oauth_state 100 [''s1'' \<mapsto> \<lparr>timestamp = 0, used = False\<rparr>] ''s1''))
                 [Verify ''s2'' 150, Store ''s3'' 160 161, Cleanup 170]) ''s1'')
   \<and> \<not> fst (verify_oauth_state 601 [''s1'' \<mapsto> \<lparr>timestamp = 0, used = False\<rparr>] ''s1'')"
  using verify_oauth_state_consume [of 100 "[''s1'' \<mapsto> \<lparr>timestamp = 0, used = False\<rparr>]" "''s1''"
          "[Verify ''s2'' 150, Store ''s3'' 160 161, Cleanup 170]" 200]
        verify_oauth_state_consume [of 601 "[''s1'' \<mapsto> \<lparr>timestamp = 0, used = False\<rparr>]" "''s1''" "[]" 0]
  by simp

text \<open>
  Claim C9. After \<open>store_oauth_state\<close> or \<open>verify_oauth_state\<close> returns, every record in
  the map was created at most 600 seconds before the clock reading \<open>current_time\<close> of the
  sweep that the operation ran first. For \<open>store_oauth_state\<close> the new record is stamped
  with a second, later reading of the clock (\<open>current_time \<le> now\<close>).
\<close>

theorem sweep_leaves_no_expired:
  "(current_time \<le> now \<longrightarrow>
      (\<forall>s d. store_oauth_state current_time now m state s = Some d \<longrightarrow> current_time - timestamp d \<le> 600))
   \<and> (\<forall>s d. snd (verify_oauth_state current_time m state) s = Some d \<longrightarrow> current_time - timestamp d \<le> 600)"
proof (intro conjI allI impI)
  fix s d
  assume le: "current_time \<le> now" and got: "store_oauth_state current_time now m state s = Some d"
  show "current_time - timestamp d \<le> 600"
  proof (cases "s = state")
    case True
    with got have "d = \<lparr>timestamp = now, used = False\<rparr>" by (simp add: store_oauth_state_def)
    with le show ?thesis by simp
  next
    case False
    with got have "cleanup_expired_states current_time m s = Some d" by (simp add: store_oauth_state_def)
    then show ?thesis by (auto simp: cleanup_lookup split: option.splits if_splits)
  qed
next
  fix s d
  assume got: "snd (verify_oauth_state current_time m state) s = Some d"
  show "current_time - timestamp d \<le> 600"
  proof (cases "s = state")
    case True
    with got show ?thesis by (auto simp: verify_snd_same split: option.splits if_splits)
  next
    case False
    with got have "cleanup_expired_states current_time m s = Some d" by (simp add: verify_snd_other)
    then show ?thesis by (auto simp: cleanup_lookup split: option.splits if_splits)
  qed
qed

text \<open>
  At 1000 a record of age 1000 is swept and one of age 600 is kept, by either operation.
\<close>

theorem sweep_leaves_no_expired_witness:
  "(1000::real) \<le> 1001
   \<and> store_oauth_state 1000 1001 [''old'' \<mapsto> \<lparr>timestamp = 0, used = False\<rparr>,
                                   ''new'' \<mapsto> \<lparr>timestamp = 400, used = False\<rparr>] ''s'' ''old'' = None
   \<and> store_oauth_state 1000 1001 [''old'' \<mapsto> \<lparr>timestamp = 0, used = False\<rparr>,
                                   ''new'' \<mapsto> \<lparr>timestamp = 400, used = False\<rparr>] ''s'' ''new''
        = Some \<lparr>timestamp = 400, used = False\<rparr>
   \<and> (1000::real) - timestamp \<lparr>timestamp = 400, used = False\<rparr> \<le> 600
   \<and> snd (verify_oauth_state 1000 [''old'' \<mapsto> \<lparr>timestamp = 0, used = False\<rparr>,
                                   ''new'' \<mapsto> \<lparr>timestamp = 400, used = False\<rparr>] ''new'') ''new''
        = Some \<lparr>timestamp = 400, used = True\<rparr>
   \<and> snd (verify_oauth_state 1000 [''old'' \<mapsto> \<lparr>timestamp = 0, used = False\<rparr>,
                                   ''new'' \<mapsto> \<lparr>timestamp = 400, used = False\<rparr>] ''new'') ''old'' = None"
  using sweep_leaves_no_expired [of 1000 1001 "[''old'' \<mapsto> \<lparr>timestamp = 0, used = False\<rparr>,
                                   ''new'' \<mapsto> \<lparr>timestamp = 400, used = False\<rparr>]" "''s''"]
  by (simp add: store_oauth_state_def verify_oauth_state_def cleanup_expired_states_def)

text \<open>
  Claim C10. \<open>store_oauth_state\<close> for a state that is already in the map replaces the
  record: the flag \<open>used\<close> is false again and the timestamp is the new clock reading.
  A state that was consumed, and is therefore refused, is accepted again after it is stored
  again (within 600 seconds of the new timestamp).
\<close>

theorem store_oauth_state_overwrites:
  "store_oauth_state current_time now m state state = Some \<lparr>timestamp = now, used = False\<rparr>
   \<and> (t - now \<le> 600 \<longrightarrow> fst (verify_oauth_state t (store_oauth_state current_time now m state) state))
   \<and> \<not> fst (verify_oauth_state t1 (snd (verify_oauth_state t0 m state)) state)
   \<and> (t - now \<le> 600 \<longrightarrow>
        fst (verify_oauth_state t
               (store_oauth_state current_time now (snd (verify_oauth_state t0 m state)) state) state))"
proof -
  have "\<not> fst (verify_oauth_state t1 (snd (verify_oauth_state t0 m state)) state)"
    by (rule spent_verify_False [OF spent_after_verify])
  then show ?thesis
    by (simp add: verify_fst store_oauth_state_def)
qed

text \<open>
  A state consumed at 10 is refused at 20, stored again at 31 and accepted at 40.
\<close>

theorem store_oauth_state_overwrites_witness:
  "fst (verify_oauth_state 10 [''s1'' \<mapsto> \<lparr>timestamp = 0, used = False\<rparr>] ''s1'')
   \<and> \<not> fst (verify_oauth_state 20 (snd (verify_oauth_state 10 [''s1'' \<mapsto> \<lparr>timestamp = 0, used = False\<rparr>] ''s1'')) ''s1'')
   \<and> store_oauth_state 30 31 (snd (verify_oauth_state 10 [''s1'' \<mapsto> \<lparr>timestamp = 0, used = False\<rparr>] ''s1'')) ''s1'' ''s1''
        = Some \<lparr>timestamp = 31, used = False\<rparr>
   \<and> (40::real) - 31 \<le> 600
   \<and> fst (verify_oauth_state 40
        (store_oauth_state 30 31 (snd (verify_oauth_state 10 [''s1'' \<mapsto> \<lparr>timestamp = 0, used = False\<rparr>] ''s1'')) ''s1'') ''s1'')"
  using store_oauth_state_overwrites [of 30 31 "snd (verify_oauth_state 10 [''s1'' \<mapsto> \<lparr>timestamp = 0, used = False\<rparr>] ''s1'')" "''s1''" 40 20 10]
        store_oauth_state_overwrites [of 30 31 "[''s1'' \<mapsto> \<lparr>timestamp = 0, used = False\<rparr>]" "''s1''" 40 20 10]
  by (simp add: verify_fst)

section \<open>The token library: lemmas\<close>

lemmas validate_defs =
  validate_claims_def validate_iat_def validate_nbf_def validate_exp_def
  validate_aud_def validate_sub_def validate_jti_def

text \<open>Both \<open>except\<close> clauses of \<open>verify_jwt_token\<close> return \<open>None\<close>.\<close>

lemma verify_jwt_token_decode:
  "verify_jwt_token hmac S now token =
     (case jwt_decode hmac now token S [''HS256''] of Inl e \<Rightarrow> None | Inr payload \<Rightarrow> Some payload)"
  by (simp add: verify_jwt_token_def split: sum.splits jwt_error.splits)

text \<open>Encoding a claim set whose only time claim is \<open>exp\<close>, and one with no time claim.\<close>

lemma jwt_encode_exp:
  "payload ''exp'' = Some (PyTime t) \<Longrightarrow> payload ''iat'' = None \<Longrightarrow> payload ''nbf'' = None \<Longrightarrow>
   jwt_encode hmac payload key alg =
     Jwt alg (payload(''exp'' \<mapsto> PyTime (of_int \<lfloor>t\<rfloor>)))
       (hmac key alg (payload(''exp'' \<mapsto> PyTime (of_int \<lfloor>t\<rfloor>))))"
  by (simp add: jwt_encode_def numeric_date_def Let_def)

lemma jwt_encode_plain:
  "payload ''exp'' = None \<Longrightarrow> payload ''iat'' = None \<Longrightarrow> payload ''nbf'' = None \<Longrightarrow>
   jwt_encode hmac payload key alg = Jwt alg payload (hmac key alg payload)"
  by (simp add: jwt_encode_def numeric_date_def Let_def)

text \<open>
  A correctly signed \<open>HS256\<close> token whose registered claims are a string \<open>sub\<close> and a
  whole-second \<open>exp\<close> verifies exactly before its \<open>exp\<close>.
\<close>

lemma verify_session_claims:
  "claims ''iat'' = None \<Longrightarrow> claims ''nbf'' = None \<Longrightarrow> claims ''aud'' = None \<Longrightarrow>
   claims ''jti'' = None \<Longrightarrow> claims ''sub'' = Some (PyStr sub) \<Longrightarrow>
   claims ''exp'' = Some (PyTime (of_int n)) \<Longrightarrow>
   verify_jwt_token hmac S now (Jwt ''HS256'' claims (hmac S ''HS256'' claims)) =
     (if now < of_int n then Some claims else None)"
  by (simp add: verify_jwt_token_decode jwt_decode_def validate_defs)

lemma sample_token_eq:
  "sample_token =
     Jwt ''HS256''
       [''sub'' \<mapsto> PyStr ''u1'',
        ''email'' \<mapsto> PyStr ''ann@example.com'',
        ''name'' \<mapsto> PyStr ''Ann'',
        ''role'' \<mapsto> PyStr ''user'',
        ''picture'' \<mapsto> PyNone,
        ''exp'' \<mapsto> PyTime 28800]
       ''secret/HS256/u1/ann@example.com/Ann/user/None/28800''"
  by (simp add: sample_token_def jwt_encode_exp sample_hmac_def show_claim_def)

section \<open>Claims about tokens\<close>

text \<open>A claim set whose \<open>exp\<close> has passed fails the validation.\<close>

lemma validate_claims_expired:
  assumes "claims ''exp'' = Some (PyTime expiry)" and "expiry \<le> now"
  shows "\<exists>e. validate_claims now claims = Inl e"
proof -
  have "of_int \<lfloor>expiry\<rfloor> \<le> now"
    using assms(2) of_int_floor_le [of expiry] by linarith
  with assms(1) have "validate_exp now claims = Some ExpiredSignatureError"
    by (simp add: validate_exp_def)
  then show ?thesis
    by (simp add: validate_claims_def split: option.splits)
qed

text \<open>
  Claim C3. Whenever decoding fails, \<open>verify_jwt_token\<close> returns \<open>None\<close>, and it returns
  \<open>None\<close> only then: for a string that is no token, for a token whose signature is not the
  keyed hash of its header and claims under the service's secret (tampered, or signed with
  another key), and for a token whose \<open>exp\<close> has passed. The result is the one value
  \<open>None\<close> in each case, never a claim set, so it does not tell the cases apart.
\<close>

theorem verify_jwt_token_invalid:
  "(jwt_decode hmac now token S [''HS256''] = Inl e \<longrightarrow> verify_jwt_token hmac S now token = None)
   \<and> (verify_jwt_token hmac S now token = None \<longleftrightarrow> (\<exists>e'. jwt_decode hmac now token S [''HS256''] = Inl e'))
   \<and> verify_jwt_token hmac S now (NotJwt s) = None
   \<and> (sg \<noteq> hmac S alg claims \<longrightarrow> verify_jwt_token hmac S now (Jwt alg claims sg) = None)
   \<and> (claims ''exp'' = Some (PyTime expiry) \<and> expiry \<le> now
        \<longrightarrow> verify_jwt_token hmac S now (Jwt alg claims sg) = None)"
proof (intro conjI impI)
  assume "jwt_decode hmac now token S [''HS256''] = Inl e"
  then show "verify_jwt_token hmac S now token = None"
    by (simp add: verify_jwt_token_decode)
next
  show "verify_jwt_token hmac S now token = None \<longleftrightarrow> (\<exists>e'. jwt_decode hmac now token S [''HS256''] = Inl e')"
    by (cases "jwt_decode hmac now token S [''HS256'']") (simp_all add: verify_jwt_token_decode)
next
  show "verify_jwt_token hmac S now (NotJwt s) = None"
    by (simp add: verify_jwt_token_decode jwt_decode_def)
next
  assume "sg \<noteq> hmac S alg claims"
  then show "verify_jwt_token hmac S now (Jwt alg claims sg) = None"
    by (auto simp: verify_jwt_token_decode jwt_decode_def)
next
  assume "claims ''exp'' = Some (PyTime expiry) \<and> expiry \<le> now"
  then obtain err where "validate_claims now claims = Inl err"
    using validate_claims_expired by blast
  then show "verify_jwt_token hmac S now (Jwt alg claims sg) = None"
    by (simp add: verify_jwt_token_decode jwt_decode_def)
qed

text \<open>
  The sample token at its expiry time, a string that is no token, a forged signature and
  a wrong key each give \<open>None\<close>; the sample token before its expiry gives its claims.
\<close>

theorem verify_jwt_token_invalid_witness:
  "jwt_decode sample_hmac 28800 sample_token ''secret'' [''HS256''] = Inl ExpiredSignatureError
   \<and> verify_jwt_token sample_hmac ''secret'' 28800 sample_token = None
   \<and> verify_jwt_token sample_hmac ''secret'' 0 (NotJwt ''garbage'') = None
   \<and> ''forged'' \<noteq> sample_hmac ''secret'' ''HS256'' sample_user
   \<and> verify_jwt_token sample_hmac ''secret'' 0 (Jwt ''HS256'' sample_user ''forged'') = None
   \<and> jwt_sig sample_token \<noteq> sample_hmac ''other'' ''HS256'' (jwt_claims sample_token)
   \<and> verify_jwt_token sample_hmac ''other'' 0 sample_token = None
   \<and> verify_jwt_token sample_hmac ''secret'' 0 sample_token = Some (jwt_claims sample_token)"
proof -
  have sig: "sample_hmac ''secret'' ''HS256'' (jwt_claims sample_token) = jwt_sig sample_token"
    by (simp add: sample_token_eq sample_hmac_def show_claim_def)
  have a: "jwt_decode sample_hmac 28800 sample_token ''secret'' [''HS256''] = Inl ExpiredSignatureError"
    using sig by (simp add: sample_token_eq jwt_decode_def validate_defs)
  have b: "''forged'' \<noteq> sample_hmac ''secret'' ''HS256'' sample_user"
    by (simp add: sample_hmac_def)
  have c: "jwt_sig sample_token \<noteq> sample_hmac ''other'' ''HS256'' (jwt_claims sample_token)"
    by (simp add: sample_token_eq sample_hmac_def)
  have d: "verify_jwt_token sample_hmac ''secret'' 0 sample_token = Some (jwt_claims sample_token)"
    using sig by (simp add: sample_token_eq verify_jwt_token_decode jwt_decode_def validate_defs)
  note th1 = verify_jwt_token_invalid [of sample_hmac 28800 sample_token "''secret''" ExpiredSignatureError
          "''garbage''" "''forged''" "''HS256''" sample_user 28800]
  note th2 = verify_jwt_token_invalid [of sample_hmac 0 sample_token "''other''" InvalidSignatureError
          "''garbage''" "jwt_sig sample_token" "''HS256''" "jwt_claims sample_token" 28800]
  have e: "verify_jwt_token sample_hmac ''secret'' 28800 sample_token = None"
    using th1 a by blast
  have f: "verify_jwt_token sample_hmac ''secret'' 0 (NotJwt ''garbage'') = None"
    using th2 by (simp add: verify_jwt_token_decode jwt_decode_def)
  have g: "verify_jwt_token sample_hmac ''secret'' 0 (Jwt ''HS256'' sample_user ''forged'') = None"
    using th1 b by (simp add: verify_jwt_token_decode jwt_decode_def)
  have h: "verify_jwt_token sample_hmac ''other'' 0 sample_token = None"
  proof -
    have "sample_token = Jwt ''HS256'' (jwt_claims sample_token) (jwt_sig sample_token)"
      by (simp add: sample_token_eq)
    with th2 c show ?thesis by metis
  qed
  from a b c d e f g h show ?thesis by blast
qed

text \<open>Eight hours after a clock reading, in whole seconds.\<close>

lemma floor_add_8h: "\<lfloor>utcnow + 8 * 3600\<rfloor> = \<lfloor>utcnow :: real\<rfloor> + 28800"
  by linarith

text \<open>What \<open>create_jwt_token\<close> returns for an identity that has the four subscripted keys.\<close>

lemma create_jwt_token_eq:
  assumes "user_info ''sub'' = Some sub" and "user_info ''email'' = Some email"
    and "user_info ''name'' = Some name" and "user_info ''role'' = Some role"
  shows "create_jwt_token hmac S utcnow user_info =
           Inr (Jwt ''HS256''
                  [''sub'' \<mapsto> sub, ''email'' \<mapsto> email, ''name'' \<mapsto> name, ''role'' \<mapsto> role,
                   ''picture'' \<mapsto> dict_get user_info ''picture'' (PyStr []),
                   ''exp'' \<mapsto> PyTime (of_int (\<lfloor>utcnow\<rfloor> + 28800))]
                  (hmac S ''HS256''
                     [''sub'' \<mapsto> sub, ''email'' \<mapsto> email, ''name'' \<mapsto> name, ''role'' \<mapsto> role,
                      ''picture'' \<mapsto> dict_get user_info ''picture'' (PyStr []),
                      ''exp'' \<mapsto> PyTime (of_int (\<lfloor>utcnow\<rfloor> + 28800))]))"
  using assms
  by (simp add: create_jwt_token_def getitem_def jwt_encode_exp floor_add_8h)

text \<open>The sample token is the token issued for the sample identity at time 0.\<close>

lemma create_sample_token:
  "create_jwt_token sample_hmac ''secret'' 0 sample_user = Inr sample_token"
  using create_jwt_token_eq [of sample_user "PyStr ''u1''" "PyStr ''ann@example.com''"
          "PyStr ''Ann''" "PyStr ''user''" sample_hmac "''secret''" 0]
  by (simp add: sample_user_def dict_get_def sample_token_eq sample_hmac_def show_claim_def)

text \<open>
  Claim C4, as stated, fails. The token issued for the sample identity at 100.7 carries
  the expiry 28900, so at 28900.3, less than eight hours after the issue, it no longer
  verifies. And the token issued for an identity whose \<open>sub\<close> is \<open>None\<close> never
  verifies: the library refuses a subject that is not a string.
\<close>

theorem verify_issued_token_expires_early:
  "\<not> isl (create_jwt_token sample_hmac ''secret'' 100.7 sample_user)
   \<and> (28900.3 :: real) < 100.7 + 8 * 3600
   \<and> verify_jwt_token sample_hmac ''secret'' 28900.3
        (projr (create_jwt_token sample_hmac ''secret'' 100.7 sample_user)) = None
   \<and> \<not> isl (create_jwt_token sample_hmac ''secret'' 0 (sample_user(''sub'' \<mapsto> PyNone)))
   \<and> verify_jwt_token sample_hmac ''secret'' 10
        (projr (create_jwt_token sample_hmac ''secret'' 0 (sample_user(''sub'' \<mapsto> PyNone)))) = None"
proof -
  have a: "create_jwt_token sample_hmac ''secret'' 100.7 sample_user =
        Inr (Jwt ''HS256''
               [''sub'' \<mapsto> PyStr ''u1'', ''email'' \<mapsto> PyStr ''ann@example.com'',
                ''name'' \<mapsto> PyStr ''Ann'', ''role'' \<mapsto> PyStr ''user'',
                ''picture'' \<mapsto> PyNone, ''exp'' \<mapsto> PyTime 28900]
               (sample_hmac ''secret'' ''HS256''
                  [''sub'' \<mapsto> PyStr ''u1'', ''email'' \<mapsto> PyStr ''ann@example.com'',
                   ''name'' \<mapsto> PyStr ''Ann'', ''role'' \<mapsto> PyStr ''user'',
                   ''picture'' \<mapsto> PyNone, ''exp'' \<mapsto> PyTime 28900]))"
    using create_jwt_token_eq [of sample_user "PyStr ''u1''" "PyStr ''ann@example.com''"
          "PyStr ''Ann''" "PyStr ''user''" sample_hmac "''secret''" "100.7"]
    by (simp add: sample_user_def dict_get_def)
  have b: "create_jwt_token sample_hmac ''secret'' 0 (sample_user(''sub'' \<mapsto> PyNone)) =
        Inr (Jwt ''HS256''
               [''sub'' \<mapsto> PyNone, ''email'' \<mapsto> PyStr ''ann@example.com'',
                ''name'' \<mapsto> PyStr ''Ann'', ''role'' \<mapsto> PyStr ''user'',
                ''picture'' \<mapsto> PyNone, ''exp'' \<mapsto> PyTime 28800]
               (sample_hmac ''secret'' ''HS256''
                  [''sub'' \<mapsto> PyNone, ''email'' \<mapsto> PyStr ''ann@example.com'',
                   ''name'' \<mapsto> PyStr ''Ann'', ''role'' \<mapsto> PyStr ''user'',
                   ''picture'' \<mapsto> PyNone, ''exp'' \<mapsto> PyTime 28800]))"
    using create_jwt_token_eq [of "sample_user(''sub'' \<mapsto> PyNone)" PyNone
          "PyStr ''ann@example.com''" "PyStr ''Ann''" "PyStr ''user''" sample_hmac "''secret''" 0]
    by (simp add: sample_user_def dict_get_def)
  show ?thesis
    by (simp add: a b verify_jwt_token_decode jwt_decode_def validate_defs)
qed

text \<open>
  Claim C4, amended. For an identity with the fields \<open>sub\<close>, \<open>email\<close>, \<open>name\<close> and
  \<open>role\<close> whose \<open>sub\<close> is a string, \<open>create_jwt_token\<close> returns a token whose claims
  \<open>sub\<close>, \<open>email\<close>, \<open>name\<close>, \<open>role\<close> and \<open>picture\<close> are the identity's (the picture
  read with \<open>.get('picture', '')\<close>, so it is the identity's picture whenever the identity
  has one). With the same secret, \<open>verify_jwt_token\<close> returns these claims at every time
  before the token's expiry, which is the issue time cut to whole seconds plus eight
  hours; in particular at every time up to eight hours less one second after the issue.
  From the expiry on it returns \<open>None\<close>.
\<close>

theorem verify_issued_token:
  assumes "user_info ''sub'' = Some (PyStr sub)" and "user_info ''email'' = Some email"
    and "user_info ''name'' = Some name" and "user_info ''role'' = Some role"
  shows "\<exists>token payload.
           create_jwt_token hmac S utcnow user_info = Inr token
           \<and> jwt_claims token = payload
           \<and> payload ''sub'' = Some (PyStr sub)
           \<and> payload ''email'' = Some email
           \<and> payload ''name'' = Some name
           \<and> payload ''role'' = Some role
           \<and> payload ''picture'' = Some (dict_get user_info ''picture'' (PyStr []))
           \<and> (\<forall>picture. user_info ''picture'' = Some picture \<longrightarrow> payload ''picture'' = Some picture)
           \<and> (\<forall>now. now < of_int \<lfloor>utcnow\<rfloor> + 8 * 3600
                  \<longrightarrow> verify_jwt_token hmac S now token = Some payload)
           \<and> (\<forall>now. now \<le> utcnow + 28799 \<longrightarrow> verify_jwt_token hmac S now token = Some payload)
           \<and> (\<forall>now. of_int \<lfloor>utcnow\<rfloor> + 8 * 3600 \<le> now
                  \<longrightarrow> verify_jwt_token hmac S now token = None)"
proof -
  let ?payload = "[''sub'' \<mapsto> PyStr sub, ''email'' \<mapsto> email, ''name'' \<mapsto> name, ''role'' \<mapsto> role,
                   ''picture'' \<mapsto> dict_get user_info ''picture'' (PyStr []),
                   ''exp'' \<mapsto> PyTime (of_int (\<lfloor>utcnow\<rfloor> + 28800))]"
  let ?token = "Jwt ''HS256'' ?payload (hmac S ''HS256'' ?payload)"
  have c: "create_jwt_token hmac S utcnow user_info = Inr ?token"
    using assms by (rule create_jwt_token_eq)
  have v: "verify_jwt_token hmac S now ?token =
             (if now < of_int (\<lfloor>utcnow\<rfloor> + 28800) then Some ?payload else None)" for now
    by (rule verify_session_claims) simp_all
  have early: "now < of_int (\<lfloor>utcnow\<rfloor> + 28800)" if "now \<le> utcnow + 28799" for now
    using that by linarith
  have pic: "\<forall>picture. user_info ''picture'' = Some picture \<longrightarrow> ?payload ''picture'' = Some picture"
    by (simp add: dict_get_def)
  show ?thesis
    using c v early pic by (intro exI [of _ ?token] exI [of _ ?payload]) simp
qed

text \<open>
  The sample identity issued at 100.7: the token verifies at 28899.9 with the identity's
  fields and is refused at 28900.
\<close>

theorem verify_issued_token_witness:
  "\<not> isl (create_jwt_token sample_hmac ''secret'' 100.7 sample_user)
   \<and> (28899.9 :: real) < of_int \<lfloor>100.7 :: real\<rfloor> + 8 * 3600
   \<and> verify_jwt_token sample_hmac ''secret'' 28899.9
        (projr (create_jwt_token sample_hmac ''secret'' 100.7 sample_user))
       = Some (jwt_claims (projr (create_jwt_token sample_hmac ''secret'' 100.7 sample_user)))
   \<and> jwt_claims (projr (create_jwt_token sample_hmac ''secret'' 100.7 sample_user)) ''sub'' = sample_user ''sub''
   \<and> jwt_claims (projr (create_jwt_token sample_hmac ''secret'' 100.7 sample_user)) ''email'' = sample_user ''email''
   \<and> jwt_claims (projr (create_jwt_token sample_hmac ''secret'' 100.7 sample_user)) ''name'' = sample_user ''name''
   \<and> jwt_claims (projr (create_jwt_token sample_hmac ''secret'' 100.7 sample_user)) ''role'' = sample_user ''role''
   \<and> jwt_claims (projr (create_jwt_token sample_hmac ''secret'' 100.7 sample_user)) ''picture'' = sample_user ''picture''
   \<and> verify_jwt_token sample_hmac ''secret'' 28900
        (projr (create_jwt_token sample_hmac ''secret'' 100.7 sample_user)) = None"
proof -
  have s: "sample_user ''sub'' = Some (PyStr ''u1'')" "sample_user ''email'' = Some (PyStr ''ann@example.com'')"
    "sample_user ''name'' = Some (PyStr ''Ann'')" "sample_user ''role'' = Some (PyStr ''user'')"
    "sample_user ''picture'' = Some PyNone"
    by (simp_all add: sample_user_def)
  from verify_issued_token [of sample_user "''u1''" "PyStr ''ann@example.com''" "PyStr ''Ann''"
          "PyStr ''user''" sample_hmac "''secret''" "100.7", OF s(1-4)]
  obtain token payload where
    t: "create_jwt_token sample_hmac ''secret'' 100.7 sample_user = Inr token"
       "jwt_claims token = payload"
       "payload ''sub'' = Some (PyStr ''u1'')" "payload ''email'' = Some (PyStr ''ann@example.com'')"
       "payload ''name'' = Some (PyStr ''Ann'')" "payload ''role'' = Some (PyStr ''user'')"
       "\<forall>picture. sample_user ''picture'' = Some picture \<longrightarrow> payload ''picture'' = Some picture"
       "\<forall>now. now < of_int \<lfloor>100.7 :: real\<rfloor> + 8 * 3600
           \<longrightarrow> verify_jwt_token sample_hmac ''secret'' now token = Some payload"
       "\<forall>now. of_int \<lfloor>100.7 :: real\<rfloor> + 8 * 3600 \<le> now
           \<longrightarrow> verify_jwt_token sample_hmac ''secret'' now token = None"
    by blast
  have lt: "(28899.9 :: real) < of_int \<lfloor>100.7 :: real\<rfloor> + 8 * 3600" by simp
  have ge: "of_int \<lfloor>100.7 :: real\<rfloor> + 8 * 3600 \<le> (28900 :: real)" by simp
  from t(8) lt have v1: "verify_jwt_token sample_hmac ''secret'' 28899.9 token = Some payload" by blast
  from t(9) ge have v2: "verify_jwt_token sample_hmac ''secret'' 28900 token = None" by blast
  from t(7) s(5) have p: "payload ''picture'' = Some PyNone" by blast
  show ?thesis
    using t(1-6) v1 v2 p lt s by simp
qed

text \<open>
  Claim C8, as stated, fails: the token issued for the sample identity carries exactly the
  claims \<open>sub\<close>, \<open>email\<close>, \<open>name\<close>, \<open>role\<close>, \<open>picture\<close> and \<open>exp\<close>. There is no
  issued-at claim in it, under the name \<open>iat\<close> or any other. The expiry of a token issued
  at 100.7 is 28900, a whole second, and an identity without a picture gets the empty
  string as its \<open>picture\<close> claim.
\<close>

theorem create_jwt_token_no_issued_at:
  "create_jwt_token sample_hmac ''secret'' 0 sample_user = Inr sample_token
   \<and> jwt_claims sample_token ''iat'' = None
   \<and> jwt_claims sample_token ''issued_at'' = None
   \<and> dom (jwt_claims sample_token) = {''sub'', ''email'', ''name'', ''role'', ''picture'', ''exp''}
   \<and> jwt_claims (projr (create_jwt_token sample_hmac ''secret'' 100.7 sample_user)) ''exp''
        = Some (PyTime 28900)
   \<and> jwt_claims (projr (create_jwt_token sample_hmac ''secret'' 0 (sample_user(''picture'' := None))))
        ''picture'' = Some (PyStr [])"
proof -
  have a: "create_jwt_token sample_hmac ''secret'' 0 sample_user = Inr sample_token"
    by (rule create_sample_token)
  have b: "jwt_claims (projr (create_jwt_token sample_hmac ''secret'' 100.7 sample_user)) ''exp''
        = Some (PyTime 28900)"
    using create_jwt_token_eq [of sample_user "PyStr ''u1''" "PyStr ''ann@example.com''"
          "PyStr ''Ann''" "PyStr ''user''" sample_hmac "''secret''" "100.7"]
    by (simp add: sample_user_def)
  have c: "jwt_claims (projr (create_jwt_token sample_hmac ''secret'' 0 (sample_user(''picture'' := None))))
        ''picture'' = Some (PyStr [])"
    using create_jwt_token_eq [of "sample_user(''picture'' := None)" "PyStr ''u1''"
          "PyStr ''ann@example.com''" "PyStr ''Ann''" "PyStr ''user''" sample_hmac "''secret''" 0]
    by (simp add: sample_user_def dict_get_def)
  have d: "jwt_claims sample_token ''iat'' = None \<and> jwt_claims sample_token ''issued_at'' = None
     \<and> dom (jwt_claims sample_token) = {''sub'', ''email'', ''name'', ''role'', ''picture'', ''exp''}"
  proof -
    have cl: "jwt_claims sample_token =
        [''sub'' \<mapsto> PyStr ''u1'', ''email'' \<mapsto> PyStr ''ann@example.com'',
         ''name'' \<mapsto> PyStr ''Ann'', ''role'' \<mapsto> PyStr ''user'',
         ''picture'' \<mapsto> PyNone, ''exp'' \<mapsto> PyTime 28800]"
      by (simp add: sample_token_eq)
    have "dom (jwt_claims sample_token) = {''sub'', ''email'', ''name'', ''role'', ''picture'', ''exp''}"
      unfolding cl by auto
    moreover have "jwt_claims sample_token ''iat'' = None"
      unfolding cl by simp
    moreover have "jwt_claims sample_token ''issued_at'' = None"
      unfolding cl by simp
    ultimately show ?thesis by blast
  qed
  from a b c d show ?thesis by simp
qed

text \<open>
  Claim C8, amended. Every token that \<open>create_jwt_token\<close> returns is an \<open>HS256\<close> token
  with exactly the claims \<open>sub\<close>, \<open>email\<close>, \<open>name\<close>, \<open>role\<close>, \<open>picture\<close> and \<open>exp\<close>:
  the first four are the identity's, \<open>picture\<close> is the identity's or the empty string,
  \<open>exp\<close> is the clock reading at issue cut to whole seconds plus eight hours, and the
  signature is the keyed hash of the header and the whole claim set.
\<close>

theorem create_jwt_token_claims:
  assumes "user_info ''sub'' = Some sub" and "user_info ''email'' = Some email"
    and "user_info ''name'' = Some name" and "user_info ''role'' = Some role"
  shows "\<exists>token.
           create_jwt_token hmac S utcnow user_info = Inr token
           \<and> jwt_alg token = ''HS256''
           \<and> dom (jwt_claims token) = {''sub'', ''email'', ''name'', ''role'', ''picture'', ''exp''}
           \<and> jwt_claims token ''sub'' = Some sub
           \<and> jwt_claims token ''email'' = Some email
           \<and> jwt_claims token ''name'' = Some name
           \<and> jwt_claims token ''role'' = Some role
           \<and> jwt_claims token ''picture'' = Some (dict_get user_info ''picture'' (PyStr []))
           \<and> jwt_claims token ''exp'' = Some (PyTime (of_int \<lfloor>utcnow\<rfloor> + 8 * 3600))
           \<and> jwt_sig token = hmac S ''HS256'' (jwt_claims token)"
  using create_jwt_token_eq [OF assms, of hmac S utcnow]
  by auto

text \<open>
  The sample identity issued at 100.7: \<open>exp\<close> is 28900, and the sample keyed hash
  writes out all six claims.
\<close>

theorem create_jwt_token_claims_witness:
  "\<not> isl (create_jwt_token sample_hmac ''secret'' 100.7 sample_user)
   \<and> jwt_claims (projr (create_jwt_token sample_hmac ''secret'' 100.7 sample_user)) ''exp''
        = Some (PyTime 28900)
   \<and> jwt_sig (projr (create_jwt_token sample_hmac ''secret'' 100.7 sample_user))
        = ''secret/HS256/u1/ann@example.com/Ann/user/None/28900''"
proof -
  have s: "sample_user ''sub'' = Some (PyStr ''u1'')" "sample_user ''email'' = Some (PyStr ''ann@example.com'')"
    "sample_user ''name'' = Some (PyStr ''Ann'')" "sample_user ''role'' = Some (PyStr ''user'')"
    by (simp_all add: sample_user_def)
  from create_jwt_token_claims [OF s, of sample_hmac "''secret''" "100.7"]
  obtain token where
    t: "create_jwt_token sample_hmac ''secret'' 100.7 sample_user = Inr token"
       "jwt_claims token ''sub'' = Some (PyStr ''u1'')"
       "jwt_claims token ''email'' = Some (PyStr ''ann@example.com'')"
       "jwt_claims token ''name'' = Some (PyStr ''Ann'')"
       "jwt_claims token ''role'' = Some (PyStr ''user'')"
       "jwt_claims token ''picture'' = Some (dict_get sample_user ''picture'' (PyStr []))"
       "jwt_claims token ''exp'' = Some (PyTime (of_int \<lfloor>100.7 :: real\<rfloor> + 8 * 3600))"
       "jwt_sig token = sample_hmac ''secret'' ''HS256'' (jwt_claims token)"
    by blast
  have "jwt_sig token = ''secret/HS256/u1/ann@example.com/Ann/user/None/28900''"
    by (simp add: t sample_hmac_def show_claim_def dict_get_def sample_user_def)
  with t(1) t(7) show ?thesis by simp
qed

text \<open>
  A token that verifies is an \<open>HS256\<close> token signed under the secret whose claims pass
  the validation; its subject, if any, is a string.
\<close>

lemma verify_Some_valid:
  assumes "verify_jwt_token hmac S now token = Some payload"
  shows "token = Jwt ''HS256'' payload (hmac S ''HS256'' payload) \<and> validate_claims now payload = Inr payload"
  using assms
  by (cases token)
     (auto simp: verify_jwt_token_decode jwt_decode_def validate_claims_def
        split: if_splits sum.splits option.splits)

lemma verify_Some_sub:
  assumes "verify_jwt_token hmac S now token = Some payload" and "payload ''sub'' = Some v"
  shows "\<exists>s. v = PyStr s"
proof -
  from assms(1) have "validate_claims now payload = Inr payload"
    by (simp add: verify_Some_valid)
  then have "validate_sub payload = None"
    by (simp add: validate_claims_def split: option.splits)
  with assms(2) show ?thesis
    by (cases v) (simp_all add: validate_sub_def)
qed

text \<open>\<open>refresh_token\<close> on a token that verifies and has the four subscripted claims.\<close>

lemma refresh_token_eq:
  assumes "verify_jwt_token hmac S now token = Some payload"
    and "payload ''sub'' = Some sub" and "payload ''email'' = Some email"
    and "payload ''name'' = Some name" and "payload ''role'' = Some role"
  shows "refresh_token hmac S now utcnow (Some (Some token)) =
           (case create_jwt_token hmac S utcnow
                   [''sub'' \<mapsto> sub, ''email'' \<mapsto> email, ''name'' \<mapsto> name, ''role'' \<mapsto> role,
                    ''picture'' \<mapsto> dict_get payload ''picture'' (PyStr [])] of
              Inl e \<Rightarrow> RefreshError ''Token refresh failed'' 500
            | Inr new_token \<Rightarrow> NewToken new_token)"
proof -
  from assms(1) have "token \<noteq> NotJwt []"
    using verify_Some_valid [of hmac S now token payload] by auto
  moreover from assms(2) have "payload \<noteq> Map.empty" by auto
  ultimately show ?thesis
    using assms by (simp add: refresh_token_def getitem_def)
qed

text \<open>
  Claim C7, as stated, fails. The sample token verifies at 10 and is refreshed, yet neither
  it nor the token returned has an issued-at claim that could be later. Refreshed 0.9
  seconds after its issue, the token comes back unchanged. The empty string, which does
  not verify, is answered with status 400, and a request without a JSON body with status
  500, not 401. A token that verifies but has no \<open>email\<close> claim is answered with status
  500, and one that verifies with an empty claim set with status 401: neither gets a new
  token.
\<close>

theorem refresh_token_same_claims_no_issued_at:
  "create_jwt_token sample_hmac ''secret'' 0 sample_user = Inr sample_token
   \<and> verify_jwt_token sample_hmac ''secret'' 10 sample_token = Some (jwt_claims sample_token)
   \<and> is_NewToken (refresh_token sample_hmac ''secret'' 10 10 (Some (Some sample_token)))
   \<and> jwt_claims sample_token ''iat'' = None
   \<and> jwt_claims (reply_token (refresh_token sample_hmac ''secret'' 10 10 (Some (Some sample_token)))) ''iat'' = None
   \<and> refresh_token sample_hmac ''secret'' 0.9 0.9 (Some (Some sample_token)) = NewToken sample_token
   \<and> refresh_token sample_hmac ''secret'' 0 0 (Some (Some (NotJwt []))) = RefreshError ''Token required'' 400
   \<and> refresh_token sample_hmac ''secret'' 0 0 None = RefreshError ''Token refresh failed'' 500
   \<and> verify_jwt_token sample_hmac ''secret'' 0 (jwt_encode sample_hmac [''sub'' \<mapsto> PyStr ''u1''] ''secret'' ''HS256'')
        = Some [''sub'' \<mapsto> PyStr ''u1'']
   \<and> refresh_token sample_hmac ''secret'' 0 0
        (Some (Some (jwt_encode sample_hmac [''sub'' \<mapsto> PyStr ''u1''] ''secret'' ''HS256'')))
        = RefreshError ''Token refresh failed'' 500
   \<and> verify_jwt_token sample_hmac ''secret'' 0 (jwt_encode sample_hmac Map.empty ''secret'' ''HS256'')
        = Some Map.empty
   \<and> refresh_token sample_hmac ''secret'' 0 0
        (Some (Some (jwt_encode sample_hmac Map.empty ''secret'' ''HS256'')))
        = RefreshError ''Invalid or expired token'' 401"
proof -
  have cl: "jwt_claims sample_token =
        [''sub'' \<mapsto> PyStr ''u1'', ''email'' \<mapsto> PyStr ''ann@example.com'',
         ''name'' \<mapsto> PyStr ''Ann'', ''role'' \<mapsto> PyStr ''user'',
         ''picture'' \<mapsto> PyNone, ''exp'' \<mapsto> PyTime 28800]"
    by (simp add: sample_token_eq)
  have sig: "sample_hmac ''secret'' ''HS256'' (jwt_claims sample_token) = jwt_sig sample_token"
    by (simp add: sample_token_eq sample_hmac_def show_claim_def)
  have v: "verify_jwt_token sample_hmac ''secret'' now sample_token = Some (jwt_claims sample_token)"
    if "now < 28800" for now
    using sig that by (simp add: sample_token_eq verify_jwt_token_decode jwt_decode_def validate_defs)
  have c: "create_jwt_token sample_hmac ''secret'' utcnow
             [''sub'' \<mapsto> PyStr ''u1'', ''email'' \<mapsto> PyStr ''ann@example.com'',
              ''name'' \<mapsto> PyStr ''Ann'', ''role'' \<mapsto> PyStr ''user'',
              ''picture'' \<mapsto> dict_get (jwt_claims sample_token) ''picture'' (PyStr [])] =
           Inr (Jwt ''HS256''
                  [''sub'' \<mapsto> PyStr ''u1'', ''email'' \<mapsto> PyStr ''ann@example.com'',
                   ''name'' \<mapsto> PyStr ''Ann'', ''role'' \<mapsto> PyStr ''user'',
                   ''picture'' \<mapsto> PyNone,
                   ''exp'' \<mapsto> PyTime (of_int (\<lfloor>utcnow\<rfloor> + 28800))]
                  (sample_hmac ''secret'' ''HS256''
                     [''sub'' \<mapsto> PyStr ''u1'', ''email'' \<mapsto> PyStr ''ann@example.com'',
                      ''name'' \<mapsto> PyStr ''Ann'', ''role'' \<mapsto> PyStr ''user'',
                      ''picture'' \<mapsto> PyNone,
                      ''exp'' \<mapsto> PyTime (of_int (\<lfloor>utcnow\<rfloor> + 28800))]))" for utcnow
    using create_jwt_token_eq [of "[''sub'' \<mapsto> PyStr ''u1'', ''email'' \<mapsto> PyStr ''ann@example.com'',
              ''name'' \<mapsto> PyStr ''Ann'', ''role'' \<mapsto> PyStr ''user'',
              ''picture'' \<mapsto> dict_get (jwt_claims sample_token) ''picture'' (PyStr [])]"
            "PyStr ''u1''" "PyStr ''ann@example.com''" "PyStr ''Ann''" "PyStr ''user''"
            sample_hmac "''secret''" utcnow]
    by (simp add: cl dict_get_def)
  have r: "refresh_token sample_hmac ''secret'' now utcnow (Some (Some sample_token)) =
           NewToken (Jwt ''HS256''
                  [''sub'' \<mapsto> PyStr ''u1'', ''email'' \<mapsto> PyStr ''ann@example.com'',
                   ''name'' \<mapsto> PyStr ''Ann'', ''role'' \<mapsto> PyStr ''user'',
                   ''picture'' \<mapsto> PyNone,
                   ''exp'' \<mapsto> PyTime (of_int (\<lfloor>utcnow\<rfloor> + 28800))]
                  (sample_hmac ''secret'' ''HS256''
                     [''sub'' \<mapsto> PyStr ''u1'', ''email'' \<mapsto> PyStr ''ann@example.com'',
                      ''name'' \<mapsto> PyStr ''Ann'', ''role'' \<mapsto> PyStr ''user'',
                      ''picture'' \<mapsto> PyNone,
                      ''exp'' \<mapsto> PyTime (of_int (\<lfloor>utcnow\<rfloor> + 28800))]))"
    if "now < 28800" for now utcnow
    using refresh_token_eq [OF v [OF that], of "PyStr ''u1''" "PyStr ''ann@example.com''"
            "PyStr ''Ann''" "PyStr ''user''" utcnow]
    by (simp add: cl c [unfolded cl])
  have a1: "create_jwt_token sample_hmac ''secret'' 0 sample_user = Inr sample_token"
    by (rule create_sample_token)
  have a2: "verify_jwt_token sample_hmac ''secret'' 10 sample_token = Some (jwt_claims sample_token)"
    by (rule v) simp
  have a3: "is_NewToken (refresh_token sample_hmac ''secret'' 10 10 (Some (Some sample_token)))"
    by (simp add: r)
  have a4: "jwt_claims sample_token ''iat'' = None"
    unfolding cl by simp
  have a5: "jwt_claims (reply_token (refresh_token sample_hmac ''secret'' 10 10 (Some (Some sample_token)))) ''iat'' = None"
    by (simp add: r)
  have a6: "refresh_token sample_hmac ''secret'' 0.9 0.9 (Some (Some sample_token)) = NewToken sample_token"
  proof -
    have "(0.9 :: real) < 28800" by simp
    from r [OF this, of "0.9"] show ?thesis
      by (simp add: sample_token_def jwt_encode_exp)
  qed
  have a7: "refresh_token sample_hmac ''secret'' 0 0 (Some (Some (NotJwt []))) = RefreshError ''Token required'' 400"
    by (simp add: refresh_token_def)
  have a8: "refresh_token sample_hmac ''secret'' 0 0 None = RefreshError ''Token refresh failed'' 500"
    by (simp add: refresh_token_def)
  have a9: "verify_jwt_token sample_hmac ''secret'' 0 (jwt_encode sample_hmac [''sub'' \<mapsto> PyStr ''u1''] ''secret'' ''HS256'')
        = Some [''sub'' \<mapsto> PyStr ''u1'']"
    by (simp add: jwt_encode_plain verify_jwt_token_decode jwt_decode_def validate_defs)
  have a10: "refresh_token sample_hmac ''secret'' 0 0
        (Some (Some (jwt_encode sample_hmac [''sub'' \<mapsto> PyStr ''u1''] ''secret'' ''HS256'')))
        = RefreshError ''Token refresh failed'' 500"
    using a9 by (simp add: refresh_token_def getitem_def jwt_encode_plain)
  have a11: "verify_jwt_token sample_hmac ''secret'' 0 (jwt_encode sample_hmac Map.empty ''secret'' ''HS256'')
        = Some Map.empty"
    by (simp add: jwt_encode_plain verify_jwt_token_decode jwt_decode_def validate_defs)
  have a12: "refresh_token sample_hmac ''secret'' 0 0
        (Some (Some (jwt_encode sample_hmac Map.empty ''secret'' ''HS256'')))
        = RefreshError ''Invalid or expired token'' 401"
    using a11 by (simp add: refresh_token_def jwt_encode_plain)
  from a1 a2 a3 a4 a5 a6 a7 a8 a9 a10 a11 a12 show ?thesis by simp
qed

text \<open>
  Claim C7, amended. For a token that verifies and whose claims include \<open>sub\<close>,
  \<open>email\<close>, \<open>name\<close> and \<open>role\<close>, \<open>refresh_token\<close> returns a new token with the same
  \<open>sub\<close>, \<open>email\<close>, \<open>name\<close> and \<open>role\<close>, the same picture (or the empty string), no
  issued-at claim, and \<open>exp\<close> equal to the clock reading of the refresh cut to whole
  seconds plus eight hours: the new token verifies before that time and not from it on.
  A token that verifies with some claims but not all four of these is answered with
  status 500, one that verifies with an empty claim set with status 401. A non-empty
  input that does not verify is answered with status 401, a missing or empty token with
  status 400, a request without a JSON body with status 500; no input that does not
  verify is answered with a token.
\<close>

theorem refresh_token_reissues:
  "(verify_jwt_token hmac S now token = Some payload
      \<and> payload ''sub'' = Some sub \<and> payload ''email'' = Some email
      \<and> payload ''name'' = Some name \<and> payload ''role'' = Some role
     \<longrightarrow> (\<exists>new. refresh_token hmac S now utcnow (Some (Some token)) = NewToken new
            \<and> jwt_claims new ''sub'' = Some sub
            \<and> jwt_claims new ''email'' = Some email
            \<and> jwt_claims new ''name'' = Some name
            \<and> jwt_claims new ''role'' = Some role
            \<and> jwt_claims new ''picture'' = Some (dict_get payload ''picture'' (PyStr []))
            \<and> jwt_claims new ''exp'' = Some (PyTime (of_int \<lfloor>utcnow\<rfloor> + 8 * 3600))
            \<and> jwt_claims new ''iat'' = None
            \<and> (\<forall>t. t < of_int \<lfloor>utcnow\<rfloor> + 8 * 3600
                  \<longrightarrow> verify_jwt_token hmac S t new = Some (jwt_claims new))
            \<and> (\<forall>t. of_int \<lfloor>utcnow\<rfloor> + 8 * 3600 \<le> t \<longrightarrow> verify_jwt_token hmac S t new = None)))
   \<and> (verify_jwt_token hmac S now token = Some payload \<and> payload \<noteq> Map.empty
      \<and> (payload ''sub'' = None \<or> payload ''email'' = None
           \<or> payload ''name'' = None \<or> payload ''role'' = None)
     \<longrightarrow> refresh_token hmac S now utcnow (Some (Some token)) = RefreshError ''Token refresh failed'' 500)
   \<and> (verify_jwt_token hmac S now token = Some Map.empty
     \<longrightarrow> refresh_token hmac S now utcnow (Some (Some token)) = RefreshError ''Invalid or expired token'' 401)
   \<and> (token \<noteq> NotJwt [] \<and> verify_jwt_token hmac S now token = None
     \<longrightarrow> refresh_token hmac S now utcnow (Some (Some token)) = RefreshError ''Invalid or expired token'' 401)
   \<and> refresh_token hmac S now utcnow (Some (Some (NotJwt []))) = RefreshError ''Token required'' 400
   \<and> refresh_token hmac S now utcnow (Some None) = RefreshError ''Token required'' 400
   \<and> refresh_token hmac S now utcnow None = RefreshError ''Token refresh failed'' 500
   \<and> (verify_jwt_token hmac S now token = None
     \<longrightarrow> \<not> is_NewToken (refresh_token hmac S now utcnow (Some (Some token))))"
proof (intro conjI impI)
  assume a: "verify_jwt_token hmac S now token = Some payload
      \<and> payload ''sub'' = Some sub \<and> payload ''email'' = Some email
      \<and> payload ''name'' = Some name \<and> payload ''role'' = Some role"
  then obtain s where s: "sub = PyStr s"
    using verify_Some_sub by blast
  let ?claims = "[''sub'' \<mapsto> sub, ''email'' \<mapsto> email, ''name'' \<mapsto> name, ''role'' \<mapsto> role,
        ''picture'' \<mapsto> dict_get payload ''picture'' (PyStr []),
        ''exp'' \<mapsto> PyTime (of_int (\<lfloor>utcnow\<rfloor> + 28800))]"
  let ?new = "Jwt ''HS256'' ?claims (hmac S ''HS256'' ?claims)"
  have c: "create_jwt_token hmac S utcnow
             [''sub'' \<mapsto> sub, ''email'' \<mapsto> email, ''name'' \<mapsto> name, ''role'' \<mapsto> role,
              ''picture'' \<mapsto> dict_get payload ''picture'' (PyStr [])] = Inr ?new"
    using create_jwt_token_eq [of "[''sub'' \<mapsto> sub, ''email'' \<mapsto> email, ''name'' \<mapsto> name,
              ''role'' \<mapsto> role, ''picture'' \<mapsto> dict_get payload ''picture'' (PyStr [])]"
            sub email name role hmac S utcnow]
    by (simp add: dict_get_def)
  have r: "refresh_token hmac S now utcnow (Some (Some token)) = NewToken ?new"
    using a by (simp add: refresh_token_eq c)
  have v: "verify_jwt_token hmac S t ?new =
             (if t < of_int (\<lfloor>utcnow\<rfloor> + 28800) then Some ?claims else None)" for t
    by (rule verify_session_claims [where sub = s]) (simp_all add: s)
  have "jwt_claims ?new ''sub'' = Some sub
            \<and> jwt_claims ?new ''email'' = Some email
            \<and> jwt_claims ?new ''name'' = Some name
            \<and> jwt_claims ?new ''role'' = Some role
            \<and> jwt_claims ?new ''picture'' = Some (dict_get payload ''picture'' (PyStr []))
            \<and> jwt_claims ?new ''exp'' = Some (PyTime (of_int \<lfloor>utcnow\<rfloor> + 8 * 3600))
            \<and> jwt_claims ?new ''iat'' = None
            \<and> (\<forall>t. t < of_int \<lfloor>utcnow\<rfloor> + 8 * 3600
                  \<longrightarrow> verify_jwt_token hmac S t ?new = Some (jwt_claims ?new))
            \<and> (\<forall>t. of_int \<lfloor>utcnow\<rfloor> + 8 * 3600 \<le> t \<longrightarrow> verify_jwt_token hmac S t ?new = None)"
    using v by simp
  with r show "\<exists>new. refresh_token hmac S now utcnow (Some (Some token)) = NewToken new
            \<and> jwt_claims new ''sub'' = Some sub
            \<and> jwt_claims new ''email'' = Some email
            \<and> jwt_claims new ''name'' = Some name
            \<and> jwt_claims new ''role'' = Some role
            \<and> jwt_claims new ''picture'' = Some (dict_get payload ''picture'' (PyStr []))
            \<and> jwt_claims new ''exp'' = Some (PyTime (of_int \<lfloor>utcnow\<rfloor> + 8 * 3600))
            \<and> jwt_claims new ''iat'' = None
            \<and> (\<forall>t. t < of_int \<lfloor>utcnow\<rfloor> + 8 * 3600
                  \<longrightarrow> verify_jwt_token hmac S t new = Some (jwt_claims new))
            \<and> (\<forall>t. of_int \<lfloor>utcnow\<rfloor> + 8 * 3600 \<le> t \<longrightarrow> verify_jwt_token hmac S t new = None)"
    by (intro exI [of _ ?new]) (rule conjI)
next
  assume a: "verify_jwt_token hmac S now token = Some payload \<and> payload \<noteq> Map.empty
      \<and> (payload ''sub'' = None \<or> payload ''email'' = None
           \<or> payload ''name'' = None \<or> payload ''role'' = None)"
  then have "token \<noteq> NotJwt []"
    using verify_Some_valid [of hmac S now token payload] by auto
  with a show "refresh_token hmac S now utcnow (Some (Some token)) = RefreshError ''Token refresh failed'' 500"
    by (auto simp: refresh_token_def getitem_def split: option.splits)
next
  assume a: "verify_jwt_token hmac S now token = Some Map.empty"
  then have "token \<noteq> NotJwt []"
    using verify_Some_valid [of hmac S now token Map.empty] by auto
  with a show "refresh_token hmac S now utcnow (Some (Some token)) = RefreshError ''Invalid or expired token'' 401"
    by (simp add: refresh_token_def)
next
  assume "token \<noteq> NotJwt [] \<and> verify_jwt_token hmac S now token = None"
  then show "refresh_token hmac S now utcnow (Some (Some token)) = RefreshError ''Invalid or expired token'' 401"
    by (simp add: refresh_token_def)
next
  show "refresh_token hmac S now utcnow (Some (Some (NotJwt []))) = RefreshError ''Token required'' 400"
    by (simp add: refresh_token_def)
next
  show "refresh_token hmac S now utcnow (Some None) = RefreshError ''Token required'' 400"
    by (simp add: refresh_token_def)
next
  show "refresh_token hmac S now utcnow None = RefreshError ''Token refresh failed'' 500"
    by (simp add: refresh_token_def)
next
  assume "verify_jwt_token hmac S now token = None"
  then show "\<not> is_NewToken (refresh_token hmac S now utcnow (Some (Some token)))"
    by (simp add: refresh_token_def)
qed

text \<open>
  The sample token refreshed at 20.7 expires at 28820 and verifies at 28819.9; at 28800
  the sample token no longer verifies and is refused with 401; a signed token with the
  claim \<open>sub\<close> alone verifies and is answered 500.
\<close>

theorem refresh_token_reissues_witness:
  "verify_jwt_token sample_hmac ''secret'' 10.5 sample_token = Some (jwt_claims sample_token)
   \<and> is_NewToken (refresh_token sample_hmac ''secret'' 10.5 20.7 (Some (Some sample_token)))
   \<and> jwt_claims (reply_token (refresh_token sample_hmac ''secret'' 10.5 20.7 (Some (Some sample_token)))) ''exp''
        = Some (PyTime 28820)
   \<and> jwt_claims (reply_token (refresh_token sample_hmac ''secret'' 10.5 20.7 (Some (Some sample_token)))) ''email''
        = Some (PyStr ''ann@example.com'')
   \<and> verify_jwt_token sample_hmac ''secret'' 28819.9
        (reply_token (refresh_token sample_hmac ''secret'' 10.5 20.7 (Some (Some sample_token))))
       = Some (jwt_claims (reply_token (refresh_token sample_hmac ''secret'' 10.5 20.7 (Some (Some sample_token)))))
   \<and> verify_jwt_token sample_hmac ''secret'' 28800 sample_token = None
   \<and> refresh_token sample_hmac ''secret'' 28800 28800 (Some (Some sample_token))
        = RefreshError ''Invalid or expired token'' 401
   \<and> verify_jwt_token sample_hmac ''secret'' 0 (Jwt ''HS256'' [''sub'' \<mapsto> PyStr ''u1''] ''secret/HS256/u1/-/-/-/-/-'')
        = Some [''sub'' \<mapsto> PyStr ''u1'']
   \<and> refresh_token sample_hmac ''secret'' 0 0
        (Some (Some (Jwt ''HS256'' [''sub'' \<mapsto> PyStr ''u1''] ''secret/HS256/u1/-/-/-/-/-'')))
        = RefreshError ''Token refresh failed'' 500"
proof -
  have cl: "jwt_claims sample_token =
        [''sub'' \<mapsto> PyStr ''u1'', ''email'' \<mapsto> PyStr ''ann@example.com'',
         ''name'' \<mapsto> PyStr ''Ann'', ''role'' \<mapsto> PyStr ''user'',
         ''picture'' \<mapsto> PyNone, ''exp'' \<mapsto> PyTime 28800]"
    by (simp add: sample_token_eq)
  have sig: "sample_hmac ''secret'' ''HS256'' (jwt_claims sample_token) = jwt_sig sample_token"
    by (simp add: sample_token_eq sample_hmac_def show_claim_def)
  have v1: "verify_jwt_token sample_hmac ''secret'' 10.5 sample_token = Some (jwt_claims sample_token)"
    using sig by (simp add: sample_token_eq verify_jwt_token_decode jwt_decode_def validate_defs)
  have v2: "verify_jwt_token sample_hmac ''secret'' 28800 sample_token = None"
    using sig by (simp add: sample_token_eq verify_jwt_token_decode jwt_decode_def validate_defs)
  have ne: "sample_token \<noteq> NotJwt []"
    by (simp add: sample_token_eq)
  have f: "jwt_claims sample_token ''sub'' = Some (PyStr ''u1'')"
    "jwt_claims sample_token ''email'' = Some (PyStr ''ann@example.com'')"
    "jwt_claims sample_token ''name'' = Some (PyStr ''Ann'')"
    "jwt_claims sample_token ''role'' = Some (PyStr ''user'')"
    unfolding cl by simp_all
  note th1 = refresh_token_reissues [of sample_hmac "''secret''" "10.5" sample_token
          "jwt_claims sample_token" "PyStr ''u1''" "PyStr ''ann@example.com''" "PyStr ''Ann''"
          "PyStr ''user''" "20.7"]
  from th1 v1 f obtain new where
    n: "refresh_token sample_hmac ''secret'' 10.5 20.7 (Some (Some sample_token)) = NewToken new"
       "jwt_claims new ''email'' = Some (PyStr ''ann@example.com'')"
       "jwt_claims new ''exp'' = Some (PyTime (of_int \<lfloor>20.7 :: real\<rfloor> + 8 * 3600))"
       "\<forall>t. t < of_int \<lfloor>20.7 :: real\<rfloor> + 8 * 3600
           \<longrightarrow> verify_jwt_token sample_hmac ''secret'' t new = Some (jwt_claims new)"
    by blast
  have "(28819.9 :: real) < of_int \<lfloor>20.7 :: real\<rfloor> + 8 * 3600" by simp
  with n(4) have v3: "verify_jwt_token sample_hmac ''secret'' 28819.9 new = Some (jwt_claims new)"
    by blast
  note th2 = refresh_token_reissues [of sample_hmac "''secret''" 28800 sample_token
          "jwt_claims sample_token" "PyStr ''u1''" "PyStr ''ann@example.com''" "PyStr ''Ann''"
          "PyStr ''user''" 28800]
  from th2 v2 ne have r2: "refresh_token sample_hmac ''secret'' 28800 28800 (Some (Some sample_token))
        = RefreshError ''Invalid or expired token'' 401"
    by blast
  let ?partial = "Jwt ''HS256'' [''sub'' \<mapsto> PyStr ''u1''] ''secret/HS256/u1/-/-/-/-/-''"
  have v4: "verify_jwt_token sample_hmac ''secret'' 0 ?partial = Some [''sub'' \<mapsto> PyStr ''u1'']"
    by (simp add: verify_jwt_token_decode jwt_decode_def validate_defs sample_hmac_def show_claim_def)
  note th3 = refresh_token_reissues [of sample_hmac "''secret''" 0 ?partial
          "[''sub'' \<mapsto> PyStr ''u1'']" "PyStr ''u1''" "PyStr ''ann@example.com''" "PyStr ''Ann''"
          "PyStr ''user''" 0]
  have "[''sub'' \<mapsto> PyStr ''u1''] \<noteq> Map.empty" "[''sub'' \<mapsto> PyStr ''u1''] ''email'' = None"
    by simp_all
  with th3 v4 have r3: "refresh_token sample_hmac ''secret'' 0 0 (Some (Some ?partial))
        = RefreshError ''Token refresh failed'' 500"
    by blast
  show ?thesis
    using v1 v2 v3 v4 r2 r3 n(1-3) by simp
qed

section \<open>Claims about the guards\<close>

text \<open>
  Claim C5. For a request whose bearer token verifies to a non-empty claim set, a route
  guarded for any authenticated user runs its handler, and a route guarded for admins
  runs its handler exactly when the claim \<open>role\<close> is the string \<open>admin\<close>; with any other
  role, or none, the answer is 403. With a handler that answers 200, the status is 200 if
  and only if the route asks for any authenticated user or the role is \<open>admin\<close>.
  \<open>admin_required\<close> on its own lets a request through exactly when its \<open>user\<close>
  attribute is set and has the role \<open>admin\<close>.
\<close>

theorem guard_by_role:
  "(verify_jwt_token hmac S now token = Some claims \<and> claims \<noteq> Map.empty
    \<and> authorization req = Some (Bearer token)
    \<longrightarrow> guard hmac S now required f req =
          (if required = AnyAuthenticated \<or> claims ''role'' = Some (PyStr ''admin'')
           then f (req\<lparr>user := Some claims\<rparr>)
           else Response ''Admin access required'' 403))
   \<and> (verify_jwt_token hmac S now token = Some claims \<and> claims \<noteq> Map.empty
    \<and> authorization req = Some (Bearer token)
    \<longrightarrow> (status (guard hmac S now required (\<lambda>r. Response b 200) req) = 200
          \<longleftrightarrow> required = AnyAuthenticated \<or> claims ''role'' = Some (PyStr ''admin'')))
   \<and> admin_required f req =
       (if \<exists>u. user req = Some u \<and> u ''role'' = Some (PyStr ''admin'') then f req
        else Response ''Admin access required'' 403)"
  by (auto simp: guard_def login_required_def admin_required_def falsy_def dict_get_def Let_def
        split: required_role.splits option.splits)

text \<open>
  The sample token (role \<open>user\<close>) passes a user route and gets 403 on an admin route;
  a token with role \<open>admin\<close> passes it; a token with the unknown role \<open>root\<close> gets 403.
\<close>

theorem guard_by_role_witness:
  "verify_jwt_token sample_hmac ''secret'' 10 sample_token = Some (jwt_claims sample_token)
   \<and> jwt_claims sample_token \<noteq> Map.empty
   \<and> status (guard sample_hmac ''secret'' 10 AnyAuthenticated (\<lambda>r. Response ''ok'' 200)
        \<lparr>authorization = Some (Bearer sample_token), user = None\<rparr>) = 200
   \<and> status (guard sample_hmac ''secret'' 10 Admin (\<lambda>r. Response ''ok'' 200)
        \<lparr>authorization = Some (Bearer sample_token), user = None\<rparr>) = 403
   \<and> status (guard sample_hmac ''secret'' 10 Admin (\<lambda>r. Response ''ok'' 200)
        \<lparr>authorization = Some (Bearer
           (jwt_encode sample_hmac [''sub'' \<mapsto> PyStr ''u2'', ''role'' \<mapsto> PyStr ''admin''] ''secret'' ''HS256'')),
         user = None\<rparr>) = 200
   \<and> status (guard sample_hmac ''secret'' 10 Admin (\<lambda>r. Response ''ok'' 200)
        \<lparr>authorization = Some (Bearer
           (jwt_encode sample_hmac [''sub'' \<mapsto> PyStr ''u2'', ''role'' \<mapsto> PyStr ''root''] ''secret'' ''HS256'')),
         user = None\<rparr>) = 403"
  using guard_by_role [of sample_hmac "''secret''" 10 sample_token "jwt_claims sample_token"
          "\<lparr>authorization = Some (Bearer sample_token), user = None\<rparr>" Admin "\<lambda>r. Response ''ok'' 200" "''ok''"]
  by (simp add: guard_def login_required_def admin_required_def falsy_def dict_get_def Let_def
        jwt_encode_plain sample_token_eq verify_jwt_token_decode jwt_decode_def validate_defs
        sample_hmac_def show_claim_def)

section \<open>Claims about the callback\<close>

text \<open>
  The state check accepts a non-empty state that the store accepts or that equals the
  session's copy; it leaves the store as \<open>verify_oauth_state\<close> left it.
\<close>

lemma check_state_fst:
  "fst (check_state t m sess state) =
     (\<exists>s. state = Some s \<and> s \<noteq> [] \<and> (fst (verify_oauth_state t m s) \<or> sess ''oauth_state'' = Some s))"
  by (cases "state") (auto simp: check_state_def split: prod.splits bool.splits)

lemma check_state_snd:
  "snd (check_state t m sess state) =
     (case state of None \<Rightarrow> m | Some s \<Rightarrow> if s = [] then m else snd (verify_oauth_state t m s))"
  by (cases "state") (auto simp: check_state_def split: prod.splits bool.splits)

text \<open>Past the state check, no path of the handler answers \<open>state_mismatch\<close>.\<close>

lemma exchange_code_not_state_mismatch:
  "fst (exchange_code hmac S R idp u c) \<noteq> LoginError ''state_mismatch''"
  by (simp add: exchange_code_def Let_def
        split: sum.splits option.splits py_exception.splits)

lemma oauth_callback_fst_mismatch:
  "(fst (oauth_callback hmac S R idp t u m sess state code) = LoginError ''state_mismatch'')
     = (\<not> fst (check_state t m sess state))"
proof (cases "check_state t m sess state")
  case (Pair b m')
  show ?thesis
  proof (cases b)
    case False
    with Pair show ?thesis by (simp add: oauth_callback_def)
  next
    case True
    have "fst (case exchange_code hmac S R idp u c of
                 (r, True) \<Rightarrow> (r, m', sess(''oauth_state'' := None))
               | (r, False) \<Rightarrow> (r, m', sess)) = fst (exchange_code hmac S R idp u c)" for c
      by (simp split: prod.splits bool.splits)
    with True Pair show ?thesis
      using exchange_code_not_state_mismatch [of hmac S R idp u]
      by (simp add: oauth_callback_def split: option.splits)
  qed
qed

lemma oauth_callback_store:
  "fst (snd (oauth_callback hmac S R idp t u m sess state code)) = snd (check_state t m sess state)"
  by (cases "check_state t m sess state")
     (simp add: oauth_callback_def split: option.splits prod.splits bool.splits)


text \<open>
  Claim C6, as stated, fails. A callback without a code and with a state that the store
  does not know is answered \<open>state_mismatch\<close>, not the missing-code error. A callback
  without a code and with a stored state is answered \<open>no_code\<close>, and the state is
  consumed by then: the state check runs before the test of the code.
\<close>

theorem oauth_callback_state_before_code:
  "fst (oauth_callback sample_hmac ''secret'' Map.empty sample_idp 10 10
          Map.empty Map.empty (Some ''bogus'') None) = LoginError ''state_mismatch''
   \<and> fst (oauth_callback sample_hmac ''secret'' Map.empty sample_idp 10 10
          [''S1'' \<mapsto> \<lparr>timestamp = 0, used = False\<rparr>] Map.empty (Some ''S1'') None)
        = LoginError ''no_code''
   \<and> fst (snd (oauth_callback sample_hmac ''secret'' Map.empty sample_idp 10 10
          [''S1'' \<mapsto> \<lparr>timestamp = 0, used = False\<rparr>] Map.empty (Some ''S1'') None)) ''S1''
        = Some \<lparr>timestamp = 0, used = True\<rparr>"
  by (simp add: oauth_callback_def check_state_def verify_oauth_state_def
        cleanup_expired_states_def)

text \<open>
  Claim C6, amended. When the code is absent or empty, the callback is answered
  \<open>state_mismatch\<close> if the state check fails and \<open>no_code\<close> if it passes; the store is
  as the state check left it, the session is unchanged, and the whole result is the same
  for every identity provider, secret, role table and token clock: no external call has
  been made. The state check passes exactly for a non-empty state that the store accepts
  or that equals the session's copy.
\<close>

theorem oauth_callback_missing_code:
  "(code = None \<or> code = Some []
      \<longrightarrow> oauth_callback hmac S R idp t u m sess state code =
            (if fst (check_state t m sess state) then LoginError ''no_code''
             else LoginError ''state_mismatch'',
             snd (check_state t m sess state), sess))
   \<and> (code = None \<or> code = Some []
      \<longrightarrow> oauth_callback hmac S R idp t u m sess state code =
            oauth_callback hmac' S' R' idp' t u' m sess state code)
   \<and> (fst (check_state t m sess state) \<longleftrightarrow>
        (\<exists>s. state = Some s \<and> s \<noteq> []
             \<and> (fst (verify_oauth_state t m s) \<or> sess ''oauth_state'' = Some s)))"
proof -
  have a: "oauth_callback h K U p t v m sess state code =
            (if fst (check_state t m sess state) then LoginError ''no_code''
             else LoginError ''state_mismatch'',
             snd (check_state t m sess state), sess)"
    if "code = None \<or> code = Some []" for h K U p v
    using that
    by (cases "check_state t m sess state") (auto simp: oauth_callback_def)
  show ?thesis
    using a [of hmac S R idp u] a [of hmac' S' R' idp' u'] check_state_fst [of t m sess state]
    by simp
qed

text \<open>
  Without a code: a stored state gives \<open>no_code\<close>, an unknown one
  \<open>state_mismatch\<close>, whichever provider stands behind the service.
\<close>

theorem oauth_callback_missing_code_witness:
  "oauth_callback sample_hmac ''secret'' Map.empty sample_idp_ok 10 10
      [''S1'' \<mapsto> \<lparr>timestamp = 0, used = False\<rparr>] Map.empty (Some ''S1'') None
     = (LoginError ''no_code'',
        snd (check_state 10 [''S1'' \<mapsto> \<lparr>timestamp = 0, used = False\<rparr>] Map.empty (Some ''S1'')),
        Map.empty)
   \<and> fst (oauth_callback sample_hmac ''secret'' Map.empty sample_idp_ok 10 10
      [''S1'' \<mapsto> \<lparr>timestamp = 0, used = False\<rparr>] Map.empty (Some ''S2'') (Some []))
     = LoginError ''state_mismatch''
   \<and> oauth_callback sample_hmac ''secret'' Map.empty sample_idp_ok 10 10
      [''S1'' \<mapsto> \<lparr>timestamp = 0, used = False\<rparr>] Map.empty (Some ''S1'') None
     = oauth_callback sample_hmac ''other'' Map.empty sample_idp 10 99
      [''S1'' \<mapsto> \<lparr>timestamp = 0, used = False\<rparr>] Map.empty (Some ''S1'') None"
  using oauth_callback_missing_code [of None sample_hmac "''secret''" Map.empty sample_idp_ok 10 10
          "[''S1'' \<mapsto> \<lparr>timestamp = 0, used = False\<rparr>]" Map.empty "Some ''S1''"
          sample_hmac "''other''" Map.empty sample_idp 99]
        oauth_callback_missing_code [of "Some []" sample_hmac "''secret''" Map.empty sample_idp_ok 10 10
          "[''S1'' \<mapsto> \<lparr>timestamp = 0, used = False\<rparr>]" Map.empty "Some ''S2''"
          sample_hmac "''other''" Map.empty sample_idp 99]
  by (auto simp: check_state_fst verify_fst)

text \<open>
  Claim C1, as stated, fails. After \<open>initiate_login\<close> issues \<open>S1\<close>, the store holds it
  and the session carries a copy. A first callback with \<open>S1\<close> whose code exchange fails
  consumes the record and leaves the session as it was. A second callback with \<open>S1\<close> and
  that session passes the state check through the session's copy, although the record is
  in the store and consumed: it reaches the code exchange again. The same happens when
  the record has expired.
\<close>

theorem oauth_callback_replay_accepted:
  "snd (initiate_login sample_config ''S1'' 0 0 Map.empty Map.empty)
     = (store_oauth_state 0 0 Map.empty ''S1'', [''oauth_state'' \<mapsto> ''S1''])
   \<and> fst (oauth_callback sample_hmac ''secret'' Map.empty sample_idp 10 10
          (store_oauth_state 0 0 Map.empty ''S1'') [''oauth_state'' \<mapsto> ''S1'']
          (Some ''S1'') (Some ''code'')) = LoginError ''token_exchange_failed''
   \<and> fst (snd (oauth_callback sample_hmac ''secret'' Map.empty sample_idp 10 10
          (store_oauth_state 0 0 Map.empty ''S1'') [''oauth_state'' \<mapsto> ''S1'']
          (Some ''S1'') (Some ''code''))) ''S1'' = Some \<lparr>timestamp = 0, used = True\<rparr>
   \<and> snd (snd (oauth_callback sample_hmac ''secret'' Map.empty sample_idp 10 10
          (store_oauth_state 0 0 Map.empty ''S1'') [''oauth_state'' \<mapsto> ''S1'']
          (Some ''S1'') (Some ''code''))) = [''oauth_state'' \<mapsto> ''S1'']
   \<and> fst (oauth_callback sample_hmac ''secret'' Map.empty sample_idp 20 20
          (fst (snd (oauth_callback sample_hmac ''secret'' Map.empty sample_idp 10 10
             (store_oauth_state 0 0 Map.empty ''S1'') [''oauth_state'' \<mapsto> ''S1'']
             (Some ''S1'') (Some ''code''))))
          [''oauth_state'' \<mapsto> ''S1'']
          (Some ''S1'') (Some ''code'')) = LoginError ''token_exchange_failed''
   \<and> \<not> fst (verify_oauth_state 700 (store_oauth_state 0 0 Map.empty ''S1'') ''S1'')
   \<and> fst (oauth_callback sample_hmac ''secret'' Map.empty sample_idp 700 700
          (store_oauth_state 0 0 Map.empty ''S1'') [''oauth_state'' \<mapsto> ''S1'']
          (Some ''S1'') (Some ''code'')) = LoginError ''token_exchange_failed''"
  by (simp add: initiate_login_def oauth_callback_def check_state_def verify_oauth_state_def
        store_oauth_state_def cleanup_expired_states_def exchange_code_def sample_idp_def)

text \<open>
  Claim C1, amended. After a callback with state \<open>S1\<close>, and any further store operations
  that do not store \<open>S1\<close> anew, a second callback with \<open>S1\<close> is answered
  \<open>state_mismatch\<close> whenever the session sent with it does not carry \<open>S1\<close> as its
  \<open>oauth_state\<close>. Whenever the session does carry a non-empty \<open>S1\<close>, the callback is not
  answered \<open>state_mismatch\<close>, whatever the store holds: lost, consumed or expired. A
  callback that succeeds returns a session without \<open>oauth_state\<close>.
\<close>

theorem oauth_callback_replay:
  "(list_all (\<lambda>op. \<not> stores s op) ops \<and> sess2 ''oauth_state'' \<noteq> Some s
      \<longrightarrow> fst (oauth_callback hmac S R idp t2 u2
                (run_store (fst (snd (oauth_callback hmac S R idp t1 u1 m sess1 (Some s) code1))) ops)
                sess2 (Some s) code2) = LoginError ''state_mismatch'')
   \<and> (s \<noteq> [] \<and> sess2 ''oauth_state'' = Some s
      \<longrightarrow> fst (oauth_callback hmac S R idp t2 u2 m2 sess2 (Some s) code2) \<noteq> LoginError ''state_mismatch'')
   \<and> (fst (oauth_callback hmac S R idp t1 u1 m sess1 (Some s) code1) = AuthSuccess tok
      \<longrightarrow> snd (snd (oauth_callback hmac S R idp t1 u1 m sess1 (Some s) code1)) ''oauth_state'' = None)"
proof (intro conjI impI)
  assume a: "list_all (\<lambda>op. \<not> stores s op) ops \<and> sess2 ''oauth_state'' \<noteq> Some s"
  let ?m1 = "fst (snd (oauth_callback hmac S R idp t1 u1 m sess1 (Some s) code1))"
  show "fst (oauth_callback hmac S R idp t2 u2 (run_store ?m1 ops) sess2 (Some s) code2)
          = LoginError ''state_mismatch''"
  proof (cases "s = []")
    case True
    then show ?thesis by (simp add: oauth_callback_fst_mismatch check_state_fst)
  next
    case False
    then have "?m1 = snd (verify_oauth_state t1 m s)"
      by (simp add: oauth_callback_store check_state_snd)
    then have "spent ?m1 s" by (simp add: spent_after_verify)
    with a have "spent (run_store ?m1 ops) s" by (simp add: spent_run)
    then have "\<not> fst (verify_oauth_state t2 (run_store ?m1 ops) s)" by (rule spent_verify_False)
    with a show ?thesis by (simp add: oauth_callback_fst_mismatch check_state_fst)
  qed
next
  assume "s \<noteq> [] \<and> sess2 ''oauth_state'' = Some s"
  then show "fst (oauth_callback hmac S R idp t2 u2 m2 sess2 (Some s) code2) \<noteq> LoginError ''state_mismatch''"
    by (simp add: oauth_callback_fst_mismatch check_state_fst)
next
  assume "fst (oauth_callback hmac S R idp t1 u1 m sess1 (Some s) code1) = AuthSuccess tok"
  then show "snd (snd (oauth_callback hmac S R idp t1 u1 m sess1 (Some s) code1)) ''oauth_state'' = None"
    by (cases "check_state t1 m sess1 (Some s)")
       (auto simp: oauth_callback_def exchange_code_def Let_def
          split: option.splits prod.splits bool.splits if_splits sum.splits py_exception.splits)
qed


text \<open>
  A first callback with \<open>S1\<close> succeeds and clears the session; the second, with the
  session it returned, is answered \<open>state_mismatch\<close>. A callback whose session carries
  \<open>S1\<close> passes the state check on an empty store.
\<close>

theorem oauth_callback_replay_witness:
  "fst (oauth_callback sample_hmac ''secret'' Map.empty sample_idp_ok 10 0
          (store_oauth_state 0 0 Map.empty ''S1'') [''oauth_state'' \<mapsto> ''S1'']
          (Some ''S1'') (Some ''code'')) = AuthSuccess sample_token
   \<and> snd (snd (oauth_callback sample_hmac ''secret'' Map.empty sample_idp_ok 10 0
          (store_oauth_state 0 0 Map.empty ''S1'') [''oauth_state'' \<mapsto> ''S1'']
          (Some ''S1'') (Some ''code''))) ''oauth_state'' = None
   \<and> fst (oauth_callback sample_hmac ''secret'' Map.empty sample_idp_ok 20 20
          (run_store
             (fst (snd (oauth_callback sample_hmac ''secret'' Map.empty sample_idp_ok 10 0
                (store_oauth_state 0 0 Map.empty ''S1'') [''oauth_state'' \<mapsto> ''S1'']
                (Some ''S1'') (Some ''code''))))
             [Cleanup 15, Store ''S2'' 16 16])
          (snd (snd (oauth_callback sample_hmac ''secret'' Map.empty sample_idp_ok 10 0
             (store_oauth_state 0 0 Map.empty ''S1'') [''oauth_state'' \<mapsto> ''S1'']
             (Some ''S1'') (Some ''code''))))
          (Some ''S1'') (Some ''code'')) = LoginError ''state_mismatch''
   \<and> fst (oauth_callback sample_hmac ''secret'' Map.empty sample_idp_ok 20 20
          Map.empty [''oauth_state'' \<mapsto> ''S1''] (Some ''S1'') (Some ''code''))
        \<noteq> LoginError ''state_mismatch''"
proof -
  let ?r1 = "oauth_callback sample_hmac ''secret'' Map.empty sample_idp_ok 10 0
          (store_oauth_state 0 0 Map.empty ''S1'') [''oauth_state'' \<mapsto> ''S1'']
          (Some ''S1'') (Some ''code'')"
  have ex: "exchange_code sample_hmac ''secret'' Map.empty sample_idp_ok 0 ''code''
              = (AuthSuccess sample_token, True)"
    by (simp add: exchange_code_def sample_idp_ok_def dict_get_def getitem_def get_user_role_def
          create_sample_token [unfolded sample_user_def])
  have ok: "fst ?r1 = AuthSuccess sample_token"
    by (simp add: oauth_callback_def check_state_def verify_oauth_state_def
          store_oauth_state_def cleanup_expired_states_def ex)
  have ops: "list_all (\<lambda>op. \<not> stores ''S1'' op) [Cleanup 15, Store ''S2'' 16 16]"
    by simp
  note th = oauth_callback_replay [of "''S1''" "[Cleanup 15, Store ''S2'' 16 16]" "snd (snd ?r1)"
          sample_hmac "''secret''" Map.empty sample_idp_ok 20 20 10 0
          "store_oauth_state 0 0 Map.empty ''S1''" "[''oauth_state'' \<mapsto> ''S1'']" "Some ''code''"
          "Some ''code''" Map.empty sample_token]
  from th ok have cleared: "snd (snd ?r1) ''oauth_state'' = None"
    by blast
  with th ops have second: "fst (oauth_callback sample_hmac ''secret'' Map.empty sample_idp_ok 20 20
          (run_store (fst (snd ?r1)) [Cleanup 15, Store ''S2'' 16 16])
          (snd (snd ?r1)) (Some ''S1'') (Some ''code'')) = LoginError ''state_mismatch''"
    by simp
  have third: "fst (oauth_callback sample_hmac ''secret'' Map.empty sample_idp_ok 20 20
          Map.empty [''oauth_state'' \<mapsto> ''S1''] (Some ''S1'') (Some ''code''))
        \<noteq> LoginError ''state_mismatch''"
    using oauth_callback_replay [of "''S1''" "[]" "[''oauth_state'' \<mapsto> ''S1'']"
          sample_hmac "''secret''" Map.empty sample_idp_ok 20 20 10 0
          Map.empty Map.empty None "Some ''code''" Map.empty sample_token]
    by simp
  from ok cleared second third show ?thesis by blast
qed

end
